theory Spec2Isabelle
  imports Main "HOL-Library.Word" "HOL-Library.Sublist"
begin

unbundle bit_operations_syntax

section \<open>Shared types (linknet/types.h)\<close>

text \<open>
  \<^verbatim>\<open>ByteBuffer\<close> is \<^verbatim>\<open>std::vector<uint8_t>\<close>. \<^verbatim>\<open>PeerId\<close> and \<^verbatim>\<open>MessageId\<close> are
  \<^verbatim>\<open>std::array<uint8_t, 32>\<close> and \<^verbatim>\<open>std::array<uint8_t, 16>\<close>: byte lists here, whose
  fixed lengths are stated where a result depends on them. A \<^verbatim>\<open>std::string\<close> is a
  \<open>string\<close>, one \<open>char\<close> per byte. \<^verbatim>\<open>std::time_t\<close> is the 64-bit pattern that
  \<^verbatim>\<open>static_cast<uint64_t>\<close> reads.
\<close>

type_synonym byte = "8 word"
type_synonym ByteBuffer = "byte list"
type_synonym PeerId = "byte list"
type_synonym MessageId = "byte list"

datatype MessageType =
    CHAT_MESSAGE
  | FILE_TRANSFER_REQUEST
  | FILE_TRANSFER_RESPONSE
  | FILE_CHUNK
  | FILE_TRANSFER_COMPLETE
  | PEER_DISCOVERY
  | PING
  | PONG
  | CONNECTION_NOTIFICATION

text \<open>The enumerators' values, \<^verbatim>\<open>static_cast<uint8_t>(_type)\<close>.\<close>

fun type_tag :: "MessageType \<Rightarrow> byte" where
  "type_tag CHAT_MESSAGE = 0"
| "type_tag FILE_TRANSFER_REQUEST = 1"
| "type_tag FILE_TRANSFER_RESPONSE = 2"
| "type_tag FILE_CHUNK = 3"
| "type_tag FILE_TRANSFER_COMPLETE = 4"
| "type_tag PEER_DISCOVERY = 5"
| "type_tag PING = 6"
| "type_tag PONG = 7"
| "type_tag CONNECTION_NOTIFICATION = 8"

datatype FileTransferStatus = PENDING | IN_PROGRESS | COMPLETED | FAILED | REJECTED

section \<open>Byte-level helpers\<close>

definition byte_of_char :: "char \<Rightarrow> byte" where
  "byte_of_char c = of_nat (of_char c)"

definition char_of_byte :: "byte \<Rightarrow> char" where
  "char_of_byte b = char_of (unat b)"

text \<open>\<^verbatim>\<open>htobe32\<close>, \<^verbatim>\<open>htobe64\<close> followed by \<^verbatim>\<open>memcpy\<close>: the bytes, most significant first.\<close>

definition htobe32 :: "32 word \<Rightarrow> ByteBuffer" where
  "htobe32 w = [ucast (drop_bit 24 w), ucast (drop_bit 16 w), ucast (drop_bit 8 w), ucast w]"

definition htobe64 :: "64 word \<Rightarrow> ByteBuffer" where
  "htobe64 w =
     [ucast (drop_bit 56 w), ucast (drop_bit 48 w), ucast (drop_bit 40 w), ucast (drop_bit 32 w),
      ucast (drop_bit 24 w), ucast (drop_bit 16 w), ucast (drop_bit 8 w), ucast w]"

text \<open>\<^verbatim>\<open>memcpy\<close> of 4 or 8 bytes followed by \<^verbatim>\<open>be32toh\<close>, \<^verbatim>\<open>be64toh\<close>.\<close>

definition be32toh :: "ByteBuffer \<Rightarrow> 32 word" where
  "be32toh bs = foldl (\<lambda>acc b. push_bit 8 acc OR ucast b) 0 bs"

definition be64toh :: "ByteBuffer \<Rightarrow> 64 word" where
  "be64toh bs = foldl (\<lambda>acc b. push_bit 8 acc OR ucast b) 0 bs"

text \<open>The half-open range \<^verbatim>\<open>[data.begin() + a, data.begin() + b)\<close>.\<close>

definition subrange :: "'a list \<Rightarrow> nat \<Rightarrow> nat \<Rightarrow> 'a list" where
  "subrange xs a b = take (b - a) (drop a xs)"

text \<open>
  \<^verbatim>\<open>std::copy(src.begin(), src.end(), buffer.begin() + pos)\<close> and \<^verbatim>\<open>memcpy(buffer.data() + pos, ..)\<close>
  into a buffer that was allocated large enough.
\<close>

definition copy_to :: "'a list \<Rightarrow> nat \<Rightarrow> 'a list \<Rightarrow> 'a list" where
  "copy_to buffer pos src = take pos buffer @ src @ drop (pos + length src) buffer"

section \<open>Wire messages (message.cpp, file\_transfer.cpp)\<close>

text \<open>
  One constructor per message class; the first three arguments are the base class's
  \<^verbatim>\<open>_sender\<close>, \<^verbatim>\<open>_id\<close> and \<^verbatim>\<open>_timestamp\<close>, and \<^verbatim>\<open>_type\<close> is fixed by the class.
\<close>

datatype Message =
    ChatMessage PeerId MessageId "64 word" string
  | FileTransferRequestMessage PeerId MessageId "64 word" string "64 word"
  | FileChunkMessage PeerId MessageId "64 word" string "32 word" ByteBuffer
  | FileTransferCompleteMessage PeerId MessageId "64 word" string bool string

fun GetType :: "Message \<Rightarrow> MessageType" where
  "GetType (ChatMessage s i t c) = CHAT_MESSAGE"
| "GetType (FileTransferRequestMessage s i t f n) = FILE_TRANSFER_REQUEST"
| "GetType (FileChunkMessage s i t f k d) = FILE_CHUNK"
| "GetType (FileTransferCompleteMessage s i t f ok e) = FILE_TRANSFER_COMPLETE"

fun GetSender :: "Message \<Rightarrow> PeerId" where
  "GetSender (ChatMessage s i t c) = s"
| "GetSender (FileTransferRequestMessage s i t f n) = s"
| "GetSender (FileChunkMessage s i t f k d) = s"
| "GetSender (FileTransferCompleteMessage s i t f ok e) = s"

fun GetId :: "Message \<Rightarrow> MessageId" where
  "GetId (ChatMessage s i t c) = i"
| "GetId (FileTransferRequestMessage s i t f n) = i"
| "GetId (FileChunkMessage s i t f k d) = i"
| "GetId (FileTransferCompleteMessage s i t f ok e) = i"

fun GetTimestamp :: "Message \<Rightarrow> 64 word" where
  "GetTimestamp (ChatMessage s i t c) = t"
| "GetTimestamp (FileTransferRequestMessage s i t f n) = t"
| "GetTimestamp (FileChunkMessage s i t f k d) = t"
| "GetTimestamp (FileTransferCompleteMessage s i t f ok e) = t"

text \<open>
  The common part of every \<^verbatim>\<open>Serialize\<close>: the type byte at 0, the sender at 1, the
  message id at 33 and the timestamp at 49, written into the freshly allocated buffer.
\<close>

definition write_header :: "ByteBuffer \<Rightarrow> MessageType \<Rightarrow> PeerId \<Rightarrow> MessageId \<Rightarrow> 64 word \<Rightarrow> ByteBuffer" where
  "write_header buffer ty sender mid ts =
     (let b1 = buffer[0 := type_tag ty];
          b2 = copy_to b1 1 sender;
          b3 = copy_to b2 33 mid
      in copy_to b3 49 (htobe64 ts))"

fun Serialize :: "Message \<Rightarrow> ByteBuffer" where
  "Serialize (ChatMessage sender mid ts content) =
     (let buffer = replicate (61 + length content) 0;
          b1 = write_header buffer CHAT_MESSAGE sender mid ts;
          b2 = copy_to b1 57 (htobe32 (of_nat (length content)))
      in copy_to b2 61 (map byte_of_char content))"
| "Serialize (FileTransferRequestMessage sender mid ts filename file_size) =
     (let buffer = replicate (69 + length filename) 0;
          b1 = write_header buffer FILE_TRANSFER_REQUEST sender mid ts;
          b2 = copy_to b1 57 (htobe64 file_size);
          b3 = copy_to b2 65 (htobe32 (of_nat (length filename)))
      in copy_to b3 69 (map byte_of_char filename))"
| "Serialize (FileChunkMessage sender mid ts file_id chunk_index data) =
     (let buffer = replicate (69 + length file_id + length data) 0;
          b1 = write_header buffer FILE_CHUNK sender mid ts;
          b2 = copy_to b1 57 (htobe32 (of_nat (length file_id)));
          b3 = copy_to b2 61 (map byte_of_char file_id);
          b4 = copy_to b3 (61 + length file_id) (htobe32 chunk_index);
          b5 = copy_to b4 (65 + length file_id) (htobe32 (of_nat (length data)))
      in copy_to b5 (69 + length file_id) data)"
| "Serialize (FileTransferCompleteMessage sender mid ts file_id success error_message) =
     (let buffer = replicate (66 + length file_id + length error_message) 0;
          b1 = write_header buffer FILE_TRANSFER_COMPLETE sender mid ts;
          b2 = copy_to b1 57 (htobe32 (of_nat (length file_id)));
          b3 = copy_to b2 61 (map byte_of_char file_id);
          b4 = b3[61 + length file_id := (if success then 1 else 0)];
          b5 = copy_to b4 (62 + length file_id) (htobe32 (of_nat (length error_message)))
      in copy_to b5 (66 + length file_id) (map byte_of_char error_message))"

text \<open>
  \<^verbatim>\<open>Deserialize\<close> overwrites every field of the object it is called on and returns
  whether it succeeded: the populated message, or \<open>None\<close> for \<^verbatim>\<open>false\<close>. The
  sizes it compares are \<^verbatim>\<open>size_t\<close> sums of a header size and 32-bit lengths, which do
  not wrap in 64 bits: natural numbers here.
\<close>

definition ChatMessage_Deserialize :: "ByteBuffer \<Rightarrow> Message option" where
  "ChatMessage_Deserialize data =
     (if length data < 61 then None
      else if data ! 0 \<noteq> type_tag CHAT_MESSAGE then None
      else
        let sender = subrange data 1 33;
            mid = subrange data 33 49;
            ts = be64toh (subrange data 49 57);
            content_len = unat (be32toh (subrange data 57 61))
        in if length data < 61 + content_len then None
           else Some (ChatMessage sender mid ts
                        (map char_of_byte (subrange data 61 (61 + content_len)))))"

definition FileTransferRequestMessage_Deserialize :: "ByteBuffer \<Rightarrow> Message option" where
  "FileTransferRequestMessage_Deserialize data =
     (if length data < 69 then None
      else if data ! 0 \<noteq> type_tag FILE_TRANSFER_REQUEST then None
      else
        let sender = subrange data 1 33;
            mid = subrange data 33 49;
            ts = be64toh (subrange data 49 57);
            file_size = be64toh (subrange data 57 65);
            filename_len = unat (be32toh (subrange data 65 69))
        in if length data < 69 + filename_len then None
           else Some (FileTransferRequestMessage sender mid ts
                        (map char_of_byte (subrange data 69 (69 + filename_len))) file_size))"

definition FileChunkMessage_Deserialize :: "ByteBuffer \<Rightarrow> Message option" where
  "FileChunkMessage_Deserialize data =
     (if length data < 61 then None
      else if data ! 0 \<noteq> type_tag FILE_CHUNK then None
      else
        let sender = subrange data 1 33;
            mid = subrange data 33 49;
            ts = be64toh (subrange data 49 57);
            file_id_len = unat (be32toh (subrange data 57 61))
        in if length data < 61 + file_id_len + 8 then None
           else
             let file_id = map char_of_byte (subrange data 61 (61 + file_id_len));
                 chunk_index = be32toh (subrange data (61 + file_id_len) (65 + file_id_len));
                 data_len = unat (be32toh (subrange data (65 + file_id_len) (69 + file_id_len)))
             in if length data < 61 + file_id_len + 8 + data_len then None
                else Some (FileChunkMessage sender mid ts file_id chunk_index
                             (subrange data (69 + file_id_len) (69 + file_id_len + data_len))))"

definition FileTransferCompleteMessage_Deserialize :: "ByteBuffer \<Rightarrow> Message option" where
  "FileTransferCompleteMessage_Deserialize data =
     (if length data < 61 then None
      else if data ! 0 \<noteq> type_tag FILE_TRANSFER_COMPLETE then None
      else
        let sender = subrange data 1 33;
            mid = subrange data 33 49;
            ts = be64toh (subrange data 49 57);
            file_id_len = unat (be32toh (subrange data 57 61))
        in if length data < 61 + file_id_len + 5 then None
           else
             let file_id = map char_of_byte (subrange data 61 (61 + file_id_len));
                 success = (data ! (61 + file_id_len) \<noteq> 0);
                 error_len = unat (be32toh (subrange data (62 + file_id_len) (66 + file_id_len)))
             in if length data < 61 + file_id_len + 5 + error_len then None
                else Some (FileTransferCompleteMessage sender mid ts file_id success
                             (map char_of_byte
                                (subrange data (66 + file_id_len) (66 + file_id_len + error_len)))))"

text \<open>The virtual call \<^verbatim>\<open>Deserialize\<close> on an object of the class of kind \<open>ty\<close>.\<close>

fun Deserialize :: "MessageType \<Rightarrow> ByteBuffer \<Rightarrow> Message option" where
  "Deserialize CHAT_MESSAGE data = ChatMessage_Deserialize data"
| "Deserialize FILE_TRANSFER_REQUEST data = FileTransferRequestMessage_Deserialize data"
| "Deserialize FILE_CHUNK data = FileChunkMessage_Deserialize data"
| "Deserialize FILE_TRANSFER_COMPLETE data = FileTransferCompleteMessage_Deserialize data"
| "Deserialize ty data = None"

text \<open>
  \<^verbatim>\<open>MessageFactory::CreateFromBuffer\<close>; \<open>None\<close> is the null pointer. The switch has the two
  cases below and a default that logs and leaves the pointer null.
\<close>

definition CreateFromBuffer :: "ByteBuffer \<Rightarrow> Message option" where
  "CreateFromBuffer data =
     (if data = [] then None
      else if length data < 33 then None
      else if data ! 0 = type_tag CHAT_MESSAGE then ChatMessage_Deserialize data
      else if data ! 0 = type_tag FILE_TRANSFER_REQUEST then FileTransferRequestMessage_Deserialize data
      else None)"

text \<open>
  The completion handler of \<^verbatim>\<open>PeerSession::ReadMessage\<close> for a frame body that was read
  without error: the messages handed to \<^verbatim>\<open>_message_callback\<close>.
\<close>

definition ReadMessage_deliver :: "ByteBuffer \<Rightarrow> Message list" where
  "ReadMessage_deliver read_buffer =
     (case CreateFromBuffer read_buffer of None \<Rightarrow> [] | Some message \<Rightarrow> [message])"

text \<open>What the wire format can carry: the array sizes and the 4-byte length fields.\<close>

fun wire_ok :: "Message \<Rightarrow> bool" where
  "wire_ok (ChatMessage s i t c) \<longleftrightarrow>
     length s = 32 \<and> length i = 16 \<and> length c < 2 ^ 32"
| "wire_ok (FileTransferRequestMessage s i t f n) \<longleftrightarrow>
     length s = 32 \<and> length i = 16 \<and> length f < 2 ^ 32"
| "wire_ok (FileChunkMessage s i t f k d) \<longleftrightarrow>
     length s = 32 \<and> length i = 16 \<and> length f < 2 ^ 32 \<and> length d < 2 ^ 32"
| "wire_ok (FileTransferCompleteMessage s i t f ok e) \<longleftrightarrow>
     length s = 32 \<and> length i = 16 \<and> length f < 2 ^ 32 \<and> length e < 2 ^ 32"

section \<open>The network manager, the file system and the callbacks\<close>

text \<open>
  The file-transfer manager talks to three collaborators: the network manager
  (\<^verbatim>\<open>AsioNetworkManager\<close> in peer\_discovery.cpp), the file system through
  \<^verbatim>\<open>std::filesystem\<close> and the file streams, and the callbacks the application
  registered. Their state is carried in the same record as the manager's own tables, so
  that every effect of a handler is a change of the record.

  \<^item> A session is the part of \<^verbatim>\<open>PeerSession\<close> that \<^verbatim>\<open>SendMessage\<close> reads: its
    \<^verbatim>\<open>_is_connected\<close> flag, and whether \<^verbatim>\<open>asio::write\<close> on its socket succeeds.
  \<^item> \<open>sent\<close> lists the messages written to a socket, oldest first, with the peer
    whose session carried them.
  \<^item> \<open>callback_log\<close> lists the invocations of the progress and completed callbacks,
    oldest first. The progress callback receives the quotient
    \<^verbatim>\<open>bytes_transferred / file_size\<close> as a double; the log keeps the two integers.
  \<^item> \<open>id_stream\<close> is the sequence \<^verbatim>\<open>GenerateMessageId\<close> draws from, \<open>clock\<close> is
    \<^verbatim>\<open>std::time(nullptr)\<close>.
  \<^item> \<open>fs_nodes\<close> holds what exists in the file system, path by path.
  \<^item> \<open>freed_read\<close> is what a read of \<^verbatim>\<open>transfer.file_path\<close> yields after the map entry
    that \<^verbatim>\<open>transfer\<close> refers to has been erased. The reference dangles and the read is
    undefined in C++; the model lets the environment choose the string, so that nothing
    ties it to the path of the erased entry.

  \<^verbatim>\<open>start_time\<close>, which nothing reads, is left out. The mutex \<^verbatim>\<open>_transfers_mutex\<close> is
  owned by a thread, not stored in the record: every public member and every handler
  releases it before it returns, so each is entered with the mutex free. The two private
  members that are entered with the mutex held take that as an argument.
\<close>

text \<open>
  A path of the file system: a regular file with its bytes; a node that exists and is not
  a regular file (a directory), on which \<^verbatim>\<open>std::filesystem::file_size\<close> throws; or a path
  whose status cannot be read, on which \<^verbatim>\<open>std::filesystem::exists\<close> throws. A path that
  does not exist is not in the map.
\<close>

datatype FsNode = RegularFile ByteBuffer | NonRegular | Unreadable

datatype FilesystemError = filesystem_error string

record Session =
  is_connected :: bool
  socket_ok :: bool

datatype CallbackEvent =
    ProgressCall PeerId string "64 word" "64 word"
  | CompletedCall PeerId string bool string

record ifstream =
  in_open :: bool
  in_fail :: bool
  in_data :: ByteBuffer

record ofstream =
  out_open :: bool
  out_fail :: bool
  out_data :: ByteBuffer

record TransferInfo =
  file_path :: string
  file_id :: string
  file_size :: "64 word"
  peer_id :: PeerId
  status :: FileTransferStatus
  bytes_transferred :: "64 word"
  input_stream :: ifstream
  output_stream :: ofstream
  next_chunk_index :: "32 word"
  received_chunks :: "32 word \<rightharpoonup> bool"

record State =
  outgoing_transfers :: "PeerId \<times> string \<rightharpoonup> TransferInfo"
  incoming_transfers :: "PeerId \<times> string \<rightharpoonup> TransferInfo"
  chunk_size :: nat
  progress_callback :: bool
  completed_callback :: bool
  request_callback :: "(PeerId \<Rightarrow> string \<Rightarrow> 64 word \<Rightarrow> bool) option"
  sessions :: "PeerId \<rightharpoonup> Session"
  sent :: "(PeerId \<times> Message) list"
  callback_log :: "CallbackEvent list"
  id_stream :: "nat \<Rightarrow> MessageId"
  ids_drawn :: nat
  clock :: "64 word"
  fs_nodes :: "string \<rightharpoonup> FsNode"
  fs_cwd :: string
  fs_can_create :: "string \<Rightarrow> bool"
  fs_write_ok :: bool
  uninit_u32 :: "32 word"
  freed_read :: string

definition DEFAULT_CHUNK_SIZE :: nat where
  "DEFAULT_CHUNK_SIZE = 16 * 1024"

text \<open>A default-constructed stream: not open, no error bit.\<close>

definition closed_ifstream :: ifstream where
  "closed_ifstream = \<lparr>in_open = False, in_fail = False, in_data = []\<rparr>"

definition closed_ofstream :: ofstream where
  "closed_ofstream = \<lparr>out_open = False, out_fail = False, out_data = []\<rparr>"

text \<open>
  \<^verbatim>\<open>AsioNetworkManager::SendMessage\<close> with \<^verbatim>\<open>PeerSession::SendMessage\<close> inlined: false
  when the peer has no session or the session is not connected; a failed write closes
  the session and gives false.
\<close>

definition SendMessage :: "PeerId \<Rightarrow> Message \<Rightarrow> State \<Rightarrow> bool \<times> State" where
  "SendMessage peer message s =
     (case sessions s peer of
        None \<Rightarrow> (False, s)
      | Some session \<Rightarrow>
          if \<not> is_connected session then (False, s)
          else if socket_ok session then (True, s\<lparr>sent := sent s @ [(peer, message)]\<rparr>)
          else (False, s\<lparr>sessions := (sessions s)(peer \<mapsto> session\<lparr>is_connected := False\<rparr>)\<rparr>))"

text \<open>
  Constructing a message (the base constructor draws a message id and reads the clock)
  and handing it to the network manager.
\<close>

definition send_new :: "(MessageId \<Rightarrow> 64 word \<Rightarrow> Message) \<Rightarrow> PeerId \<Rightarrow> State \<Rightarrow> bool \<times> State" where
  "send_new build peer s =
     SendMessage peer (build (id_stream s (ids_drawn s)) (clock s)) (s\<lparr>ids_drawn := Suc (ids_drawn s)\<rparr>)"

text \<open>\<^verbatim>\<open>std::filesystem::path(p).filename()\<close>: what follows the last separator.\<close>

definition path_filename :: "string \<Rightarrow> string" where
  "path_filename p = rev (takeWhile (\<lambda>c. c \<noteq> CHR ''/'') (rev p))"

text \<open>\<^verbatim>\<open>operator/\<close> on paths: an absolute right operand replaces the left one.\<close>

definition path_join :: "string \<Rightarrow> string \<Rightarrow> string" where
  "path_join dir name =
     (if name \<noteq> [] \<and> hd name = CHR ''/'' then name
      else if dir \<noteq> [] \<and> last dir = CHR ''/'' then dir @ name
      else dir @ ''/'' @ name)"

text \<open>\<^verbatim>\<open>std::map::emplace\<close> keeps the element already stored under the key.\<close>

definition emplace :: "('k \<rightharpoonup> 'v) \<Rightarrow> 'k \<Rightarrow> 'v \<Rightarrow> ('k \<rightharpoonup> 'v)" where
  "emplace m k v = (case m k of None \<Rightarrow> m(k \<mapsto> v) | Some old \<Rightarrow> m)"

definition log_progress :: "PeerId \<Rightarrow> TransferInfo \<Rightarrow> State \<Rightarrow> State" where
  "log_progress peer transfer s =
     (if progress_callback s
      then s\<lparr>callback_log := callback_log s @
               [ProgressCall peer (file_path transfer) (bytes_transferred transfer) (file_size transfer)]\<rparr>
      else s)"

definition log_completed :: "PeerId \<Rightarrow> string \<Rightarrow> bool \<Rightarrow> string \<Rightarrow> State \<Rightarrow> State" where
  "log_completed peer path ok err s =
     (if completed_callback s
      then s\<lparr>callback_log := callback_log s @ [CompletedCall peer path ok err]\<rparr>
      else s)"

section \<open>The file-transfer manager (file\_transfer.cpp)\<close>

text \<open>The manager as its constructor leaves it, in a given environment.\<close>

definition init_manager :: "State \<Rightarrow> State" where
  "init_manager env =
     env\<lparr>outgoing_transfers := Map.empty, incoming_transfers := Map.empty,
         chunk_size := DEFAULT_CHUNK_SIZE,
         progress_callback := False, completed_callback := False, request_callback := None\<rparr>"

text \<open>
  \<^verbatim>\<open>SendFile\<close>. It returns a boolean or lets the exception of \<^verbatim>\<open>std::filesystem\<close>
  escape: \<^verbatim>\<open>exists\<close> throws when the status of the path cannot be read, \<^verbatim>\<open>file_size\<close>
  throws on a node that is not a regular file. Both come before the request is built, so
  the state is then as it was. The request is addressed to \<^verbatim>\<open>peer_id\<close> and also carries
  \<^verbatim>\<open>peer_id\<close> as its sender, as the source constructs it. \<^verbatim>\<open>next_chunk_index\<close> is not
  assigned here.
\<close>

definition SendFile :: "PeerId \<Rightarrow> string \<Rightarrow> State \<Rightarrow> (FilesystemError + bool) \<times> State" where
  "SendFile peer file_path_arg s =
     (case fs_nodes s file_path_arg of
        None \<Rightarrow> (Inr False, s)
      | Some Unreadable \<Rightarrow> (Inl (filesystem_error ''status''), s)
      | Some NonRegular \<Rightarrow> (Inl (filesystem_error ''file_size''), s)
      | Some (RegularFile bytes) \<Rightarrow>
          let fsize = (of_nat (length bytes) :: 64 word);
              fid = file_path_arg;
              filename = path_filename file_path_arg;
              (was_sent, s1) =
                 send_new (\<lambda>i t. FileTransferRequestMessage peer i t filename fsize) peer s
          in if \<not> was_sent then (Inr False, s1)
             else
               let transfer_info =
                     \<lparr>file_path = file_path_arg, file_id = fid, file_size = fsize, peer_id = peer,
                      status = PENDING, bytes_transferred = 0,
                      input_stream = closed_ifstream, output_stream = closed_ofstream,
                      next_chunk_index = uninit_u32 s1, received_chunks = Map.empty\<rparr>
               in (Inr True, s1\<lparr>outgoing_transfers :=
                                  emplace (outgoing_transfers s1) (peer, fid) transfer_info\<rparr>))"

definition CancelTransfer :: "PeerId \<Rightarrow> string \<Rightarrow> State \<Rightarrow> State" where
  "CancelTransfer peer file_path_arg s =
     (let fid = file_path_arg in
      case outgoing_transfers s (peer, fid) of
        Some out_transfer \<Rightarrow>
          let (_, s1) = send_new (\<lambda>i t. FileTransferCompleteMessage peer i t fid False
                                           ''Transfer cancelled by sender'') peer s
          in s1\<lparr>outgoing_transfers := (outgoing_transfers s1)((peer, fid) := None)\<rparr>
      | None \<Rightarrow>
          (case incoming_transfers s (peer, fid) of
             Some in_transfer \<Rightarrow>
               let (_, s1) = send_new (\<lambda>i t. FileTransferCompleteMessage peer i t fid False
                                                ''Transfer cancelled by receiver'') peer s
               in s1\<lparr>incoming_transfers := (incoming_transfers s1)((peer, fid) := None)\<rparr>
           | None \<Rightarrow> s))"

text \<open>
  \<^verbatim>\<open>HandleFileTransferRequest\<close>. The directory \<^verbatim>\<open>downloads\<close> under the current path is
  created when missing. Opening the output stream truncates the file; whether it succeeds
  is the environment's \<open>fs_can_create\<close>. The entry is stored with \<^verbatim>\<open>operator[]\<close>, which
  replaces an older entry under the same key.
\<close>

definition HandleFileTransferRequest :: "Message \<Rightarrow> State \<Rightarrow> State" where
  "HandleFileTransferRequest message s =
     (case message of
        FileTransferRequestMessage sender mid ts filename fsize \<Rightarrow>
          let accept = (case request_callback s of None \<Rightarrow> True | Some cb \<Rightarrow> cb sender filename fsize)
          in if \<not> accept
             then snd (send_new (\<lambda>i t. FileTransferCompleteMessage sender i t filename False
                                          ''Transfer rejected by receiver'') sender s)
             else
               let output_dir = path_join (fs_cwd s) ''downloads'';
                   output_path = path_join output_dir filename
               in if \<not> fs_can_create s output_path
                  then snd (send_new (\<lambda>i t. FileTransferCompleteMessage sender i t filename False
                                               ''Failed to create output file'') sender s)
                  else
                    let transfer_info =
                          \<lparr>file_path = output_path, file_id = filename, file_size = fsize,
                           peer_id = sender, status = IN_PROGRESS, bytes_transferred = 0,
                           input_stream = closed_ifstream,
                           output_stream = \<lparr>out_open = True, out_fail = False, out_data = []\<rparr>,
                           next_chunk_index = 0, received_chunks = Map.empty\<rparr>
                    in s\<lparr>incoming_transfers := (incoming_transfers s)((sender, filename) \<mapsto> transfer_info)\<rparr>
      | _ \<Rightarrow> s)"

text \<open>
  \<^verbatim>\<open>seekp(pos)\<close> followed by \<^verbatim>\<open>write(data)\<close>: a stream that is closed or already failed
  writes nothing and has its fail bit set; a position past the end leaves a gap of zero
  bytes.
\<close>

definition write_at :: "ByteBuffer \<Rightarrow> nat \<Rightarrow> ByteBuffer \<Rightarrow> ByteBuffer" where
  "write_at old pos data_arg =
     take pos (old @ replicate (pos - length old) 0) @ data_arg @ drop (pos + length data_arg) old"

definition seekp_write :: "ofstream \<Rightarrow> nat \<Rightarrow> ByteBuffer \<Rightarrow> bool \<Rightarrow> ofstream" where
  "seekp_write f pos data_arg disk_ok =
     (if out_fail f \<or> \<not> out_open f \<or> \<not> disk_ok then f\<lparr>out_fail := True\<rparr>
      else f\<lparr>out_data := write_at (out_data f) pos data_arg\<rparr>)"

text \<open>
  \<^verbatim>\<open>HandleFileChunk\<close>. In the branch of a failed write the entry is erased before the
  completed callback is called with \<^verbatim>\<open>transfer.file_path\<close>: the callback gets
  \<open>freed_read\<close>. In the branch of the last chunk the callback is called first and gets
  the path.
\<close>

definition HandleFileChunk :: "Message \<Rightarrow> State \<Rightarrow> State" where
  "HandleFileChunk message s =
     (case message of
        FileChunkMessage sender mid ts fid chunk_index data_arg \<Rightarrow>
          (case incoming_transfers s (sender, fid) of
             None \<Rightarrow> s
           | Some transfer \<Rightarrow>
               if received_chunks transfer chunk_index \<noteq> None then s
               else
                 let out1 = seekp_write (output_stream transfer) (unat chunk_index * chunk_size s)
                              data_arg (fs_write_ok s)
                 in if out_fail out1
                    then
                      let (_, s1) = send_new (\<lambda>i t. FileTransferCompleteMessage sender i t fid False
                                                       ''Failed to write to output file'') sender s;
                          s2 = s1\<lparr>incoming_transfers := (incoming_transfers s1)((sender, fid) := None)\<rparr>
                      in log_completed sender (freed_read s2) False ''Failed to write to output file'' s2
                    else
                      let transfer1 = transfer\<lparr>output_stream := out1,
                                               received_chunks := (received_chunks transfer)(chunk_index \<mapsto> True),
                                               bytes_transferred := bytes_transferred transfer + of_nat (length data_arg)\<rparr>;
                          s1 = s\<lparr>incoming_transfers := (incoming_transfers s)((sender, fid) \<mapsto> transfer1)\<rparr>;
                          s2 = log_progress sender transfer1 s1
                      in if file_size transfer1 \<le> bytes_transferred transfer1
                         then
                           let (_, s3) = send_new (\<lambda>i t. FileTransferCompleteMessage sender i t fid True [])
                                           sender s2;
                               s4 = log_completed sender (file_path transfer1) True [] s3
                           in s4\<lparr>incoming_transfers := (incoming_transfers s4)((sender, fid) := None)\<rparr>
                         else s2)
      | _ \<Rightarrow> s)"

definition HandleFileTransferComplete :: "Message \<Rightarrow> State \<Rightarrow> State" where
  "HandleFileTransferComplete message s =
     (case message of
        FileTransferCompleteMessage sender mid ts fid success err \<Rightarrow>
          (case outgoing_transfers s (sender, fid) of
             None \<Rightarrow> s
           | Some transfer \<Rightarrow>
               let s1 = (if success then log_completed sender (file_path transfer) True [] s
                         else log_completed sender (file_path transfer) False err s)
               in s1\<lparr>outgoing_transfers := (outgoing_transfers s1)((sender, fid) := None)\<rparr>)
      | _ \<Rightarrow> s)"

text \<open>\<^verbatim>\<open>HandleMessage\<close>, the callback the constructor registers with the network manager.\<close>

definition HandleMessage :: "Message \<Rightarrow> State \<Rightarrow> State" where
  "HandleMessage message s =
     (case GetType message of
        FILE_TRANSFER_REQUEST \<Rightarrow> HandleFileTransferRequest message s
      | FILE_CHUNK \<Rightarrow> HandleFileChunk message s
      | FILE_TRANSFER_COMPLETE \<Rightarrow> HandleFileTransferComplete message s
      | _ \<Rightarrow> s)"











text \<open>
  The states the manager can be in: its constructor, then any sequence of calls of its
  public members and of the callback it registers, while the environment (sessions,
  files, clock) changes freely in between. \<^verbatim>\<open>StartSendingFile\<close> and \<^verbatim>\<open>SendNextChunk\<close> are
  private and no member calls them.
\<close>

inductive reachable :: "State \<Rightarrow> bool" where
  r_init: "reachable (init_manager env)"
| r_SendFile: "reachable s \<Longrightarrow> reachable (snd (SendFile peer path s))"
| r_CancelTransfer: "reachable s \<Longrightarrow> reachable (CancelTransfer peer path s)"
| r_HandleMessage: "reachable s \<Longrightarrow> reachable (HandleMessage message s)"
| r_SetProgressCallback: "reachable s \<Longrightarrow> reachable (s\<lparr>progress_callback := b\<rparr>)"
| r_SetCompletedCallback: "reachable s \<Longrightarrow> reachable (s\<lparr>completed_callback := b\<rparr>)"
| r_SetRequestCallback: "reachable s \<Longrightarrow> reachable (s\<lparr>request_callback := cb\<rparr>)"
| r_environment:
    "reachable s \<Longrightarrow>
     reachable (s\<lparr>sessions := ss, clock := c, fs_nodes := ff, fs_cwd := cwd,
                  fs_can_create := cc, fs_write_ok := w, uninit_u32 := u, freed_read := fr\<rparr>)"

text \<open>The \<^verbatim>\<open>FileChunk\<close> messages in a list of sent messages: chunk index and data length.\<close>

fun chunk_of :: "PeerId \<times> Message \<Rightarrow> (32 word \<times> nat) option" where
  "chunk_of (p, FileChunkMessage s i t f k d) = Some (k, length d)"
| "chunk_of (p, m) = None"

definition chunks_sent :: "(PeerId \<times> Message) list \<Rightarrow> (32 word \<times> nat) list" where
  "chunks_sent msgs = List.map_filter chunk_of msgs"

section \<open>The chat manager (chat\_manager.cpp)\<close>

record ChatInfo =
  sender_id :: PeerId
  sender_name :: string
  content :: string
  timestamp :: "64 word"

text \<open>
  \<^verbatim>\<open>_chat_history\<close> maps a peer to the vector its entries are pushed onto, so the
  oldest entry is first. One entry is added by \<^verbatim>\<open>push_back\<close>, as \<^verbatim>\<open>SendMessage\<close>,
  \<^verbatim>\<open>BroadcastMessage\<close> and \<^verbatim>\<open>HandleMessage\<close> do (\<^verbatim>\<open>operator[]\<close> creates the vector of a
  new peer).
\<close>

definition push_history :: "(PeerId \<rightharpoonup> ChatInfo list) \<Rightarrow> PeerId \<Rightarrow> ChatInfo \<Rightarrow> (PeerId \<rightharpoonup> ChatInfo list)" where
  "push_history chat_history peer info =
     chat_history(peer \<mapsto> (case chat_history peer of None \<Rightarrow> [] | Some history \<Rightarrow> history) @ [info])"

definition GetChatHistory :: "(PeerId \<rightharpoonup> ChatInfo list) \<Rightarrow> PeerId \<Rightarrow> nat \<Rightarrow> ChatInfo list" where
  "GetChatHistory chat_history peer max_messages =
     (case chat_history peer of
        None \<Rightarrow> []
      | Some history \<Rightarrow>
          if length history \<le> max_messages then history
          else drop (length history - max_messages) history)"

section \<open>The cryptography provider (sodium\_crypto.cpp)\<close>

text \<open>
  The provider wraps libsodium, which is not part of the repository. Its three
  primitives used here are parameters: each takes the arguments of the C function and
  gives the return code, and for the two secretbox functions the bytes written to the
  output buffer.
\<close>

record Sodium =
  crypto_secretbox_easy :: "ByteBuffer \<Rightarrow> ByteBuffer \<Rightarrow> ByteBuffer \<Rightarrow> int \<times> ByteBuffer"
  crypto_secretbox_open_easy :: "ByteBuffer \<Rightarrow> ByteBuffer \<Rightarrow> ByteBuffer \<Rightarrow> int \<times> ByteBuffer"
  crypto_sign_verify_detached :: "ByteBuffer \<Rightarrow> ByteBuffer \<Rightarrow> ByteBuffer \<Rightarrow> int"

text \<open>libsodium's constants.\<close>

definition crypto_secretbox_MACBYTES :: nat where
  "crypto_secretbox_MACBYTES = 16"

definition crypto_sign_BYTES :: nat where
  "crypto_sign_BYTES = 64"

datatype CryptoError = runtime_error string | invalid_argument string

definition Encrypt :: "Sodium \<Rightarrow> ByteBuffer \<Rightarrow> ByteBuffer \<Rightarrow> ByteBuffer \<Rightarrow> CryptoError + ByteBuffer" where
  "Encrypt lib plaintext key nonce =
     (let ciphertext = replicate (length plaintext + crypto_secretbox_MACBYTES) 0;
          (rc, written) = crypto_secretbox_easy lib plaintext nonce key
      in if rc \<noteq> 0 then Inl (runtime_error ''Encryption failed'')
         else Inr (copy_to ciphertext 0 written))"

definition Decrypt :: "Sodium \<Rightarrow> ByteBuffer \<Rightarrow> ByteBuffer \<Rightarrow> ByteBuffer \<Rightarrow> CryptoError + ByteBuffer" where
  "Decrypt lib ciphertext key nonce =
     (if length ciphertext < crypto_secretbox_MACBYTES
      then Inl (invalid_argument ''Ciphertext too short'')
      else
        let plaintext = replicate (length ciphertext - crypto_secretbox_MACBYTES) 0;
            (rc, written) = crypto_secretbox_open_easy lib ciphertext nonce key
        in if rc \<noteq> 0 then Inl (runtime_error ''Decryption failed'')
           else Inr (copy_to plaintext 0 written))"

definition Verify :: "Sodium \<Rightarrow> ByteBuffer \<Rightarrow> ByteBuffer \<Rightarrow> ByteBuffer \<Rightarrow> CryptoError + bool" where
  "Verify lib message signature public_key =
     (if length signature \<noteq> crypto_sign_BYTES then Inr False
      else Inr (crypto_sign_verify_detached lib signature message public_key = 0))"

text \<open>
  What libsodium documents for the secretbox pair, for keys of 32 and nonces of 24
  bytes: sealing succeeds and writes the message length plus 16 bytes, and opening
  what was sealed, with the same key and nonce, succeeds and writes the message.
\<close>

definition secretbox_contract :: "Sodium \<Rightarrow> bool" where
  "secretbox_contract lib \<longleftrightarrow>
     (\<forall>m n k. length k = 32 \<longrightarrow> length n = 24 \<longrightarrow>
        fst (crypto_secretbox_easy lib m n k) = 0 \<and>
        length (snd (crypto_secretbox_easy lib m n k)) = length m + 16 \<and>
        crypto_secretbox_open_easy lib (snd (crypto_secretbox_easy lib m n k)) n k = (0, m))"

text \<open>
  A stand-in with that contract, to instantiate the parameters: the 16 bytes in front
  are a checksum of key, nonce and message, the message follows in clear.
\<close>

definition toy_tag :: "ByteBuffer \<Rightarrow> ByteBuffer \<Rightarrow> ByteBuffer \<Rightarrow> ByteBuffer" where
  "toy_tag m n k = replicate 16 (sum_list (k @ n @ m))"

definition toy_sodium :: Sodium where
  "toy_sodium =
     \<lparr>crypto_secretbox_easy = (\<lambda>m n k. (0, toy_tag m n k @ m)),
      crypto_secretbox_open_easy =
        (\<lambda>c n k. if 16 \<le> length c \<and> take 16 c = toy_tag (drop 16 c) n k
                  then (0, drop 16 c) else (- 1, [])),
      crypto_sign_verify_detached = (\<lambda>sg m pk. if sg = replicate 64 (sum_list (pk @ m)) then 0 else - 1)\<rparr>"

section \<open>LAN discovery (peer\_discovery.cpp)\<close>

definition DISCOVERY_PREFIX :: string where
  "DISCOVERY_PREFIX = ''LINKNET_DISCOVERY''"

text \<open>
  \<^verbatim>\<open>std::stoi\<close> in base 10: leading white space, an optional sign, then digits; what
  follows the digits is ignored. \<open>None\<close> is the exception it throws, without a digit
  (\<^verbatim>\<open>invalid_argument\<close>) or outside the range of \<^verbatim>\<open>int\<close> (\<^verbatim>\<open>out_of_range\<close>).
\<close>

definition is_space :: "char \<Rightarrow> bool" where
  "is_space c \<longleftrightarrow> c \<in> set [CHR '' '', CHR 0x09, CHR 0x0A, CHR 0x0B, CHR 0x0C, CHR 0x0D]"

definition is_digit :: "char \<Rightarrow> bool" where
  "is_digit c \<longleftrightarrow> (48::nat) \<le> of_char c \<and> (of_char c :: nat) \<le> 57"

definition digit_value :: "char \<Rightarrow> int" where
  "digit_value c = int (of_char c) - 48"

definition stoi :: "string \<Rightarrow> int option" where
  "stoi str =
     (let rest = dropWhile is_space str;
          negative = (rest \<noteq> [] \<and> hd rest = CHR ''-'');
          body = (if rest \<noteq> [] \<and> (hd rest = CHR ''-'' \<or> hd rest = CHR ''+'') then tl rest else rest);
          digits = takeWhile is_digit body;
          magnitude = foldl (\<lambda>acc c. 10 * acc + digit_value c) 0 digits;
          v = (if negative then - magnitude else magnitude)
      in if digits = [] then None
         else if v < - (2 ^ 31) \<or> 2 ^ 31 - 1 < v then None
         else Some v)"

text \<open>\<^verbatim>\<open>std::string::find(':')\<close>: the index of the first colon.\<close>

definition find_colon :: "string \<Rightarrow> nat option" where
  "find_colon str =
     (if CHR '':'' \<in> set str then Some (length (takeWhile (\<lambda>c. c \<noteq> CHR '':'') str)) else None)"

record Discovery =
  local_port :: "16 word"
  discovered_peers :: "string \<rightharpoonup> nat"
  discovered_callback :: bool
  discovered_log :: "(string \<times> 16 word) list"
  steady_now :: nat

text \<open>
  What one pass of the loop in \<^verbatim>\<open>ListenThreadFunc\<close> does with a datagram: which branch
  it ends in, and the new state. \<open>local_port\<close> is \<^verbatim>\<open>_port\<close>, \<open>steady_now\<close> is
  \<^verbatim>\<open>steady_clock::now()\<close>, \<open>discovered_log\<close> lists the calls of the discovered callback.
\<close>

datatype ListenOutcome =
    NotAnnounce
  | NoPortField
  | PortParseError
  | SkippedOwn
  | Recorded bool

text \<open>
  The parse: the prefix test, the colon, the text after it and the port that
  \<^verbatim>\<open>uint16_t port = std::stoi(port_str)\<close> gives, the conversion keeping the low 16 bits.
\<close>

definition parse_announce :: "string \<Rightarrow> ListenOutcome + (string \<times> 16 word)" where
  "parse_announce message =
     (if take (length DISCOVERY_PREFIX) message \<noteq> DISCOVERY_PREFIX then Inl NotAnnounce
      else
        case find_colon message of
          None \<Rightarrow> Inl NoPortField
        | Some colon_pos \<Rightarrow>
            if \<not> colon_pos < length message - 1 then Inl NoPortField
            else
              let port_str = drop (colon_pos + 1) message
              in case stoi port_str of
                   None \<Rightarrow> Inl PortParseError
                 | Some v \<Rightarrow> Inr (port_str, word_of_int v))"

definition listen_datagram :: "string \<Rightarrow> string \<Rightarrow> Discovery \<Rightarrow> ListenOutcome \<times> Discovery" where
  "listen_datagram sender_ip payload d =
     (let message = takeWhile (\<lambda>c. c \<noteq> CHR 0x00) (take 255 payload)
      in case parse_announce message of
           Inl outcome \<Rightarrow> (outcome, d)
         | Inr (port_str, port) \<Rightarrow>
             if port = local_port d \<or> (sender_ip = ''127.0.0.1'' \<and> port = local_port d)
             then (SkippedOwn, d)
             else
               let peer_key = sender_ip @ '':'' @ port_str;
                   is_new = (discovered_peers d peer_key = None);
                   d1 = d\<lparr>discovered_peers := (discovered_peers d)(peer_key \<mapsto> steady_now d)\<rparr>
               in if is_new \<and> discovered_callback d
                  then (Recorded is_new, d1\<lparr>discovered_log := discovered_log d1 @ [(sender_ip, port)]\<rparr>)
                  else (Recorded is_new, d1))"

section \<open>Predicates used in the statements\<close>

text \<open>The chunk index is already in the received-chunk set of the matching incoming transfer.\<close>

definition already_received :: "State \<Rightarrow> PeerId \<Rightarrow> string \<Rightarrow> 32 word \<Rightarrow> bool" where
  "already_received s sender fid chunk_index =
     (case incoming_transfers s (sender, fid) of
        None \<Rightarrow> False
      | Some transfer \<Rightarrow> received_chunks transfer chunk_index \<noteq> None)"

text \<open>
  The request is accepted (no request callback is registered, or it returns true) and
  the output file under \<^verbatim>\<open>downloads\<close> can be opened.
\<close>

definition accepts :: "State \<Rightarrow> PeerId \<Rightarrow> string \<Rightarrow> 64 word \<Rightarrow> bool" where
  "accepts s sender filename fsize =
     ((case request_callback s of None \<Rightarrow> True | Some cb \<Rightarrow> cb sender filename fsize) \<and>
      fs_can_create s (path_join (path_join (fs_cwd s) ''downloads'') filename))"

text \<open>There is no connected session for the peer.\<close>

definition no_session :: "State \<Rightarrow> PeerId \<Rightarrow> bool" where
  "no_session s peer =
     (case sessions s peer of None \<Rightarrow> True | Some session \<Rightarrow> \<not> is_connected session)"

text \<open>Every outgoing transfer in the table is pending.\<close>

definition all_pending :: "State \<Rightarrow> bool" where
  "all_pending s \<longleftrightarrow> (\<forall>k e. outgoing_transfers s k = Some e \<longrightarrow> status e = PENDING)"

text \<open>The bytes of the regular file at a path.\<close>

definition regular_bytes :: "State \<Rightarrow> string \<Rightarrow> ByteBuffer" where
  "regular_bytes s path = (case fs_nodes s path of Some (RegularFile bytes) \<Rightarrow> bytes | _ \<Rightarrow> [])"


section \<open>Example states\<close>

definition peer_A :: PeerId where
  "peer_A = replicate 32 0xAA"

text \<open>
  An environment with one connected peer, one file of 50 KiB and the directory it is in,
  and the manager constructed in it.
\<close>

definition example_env :: State where
  "example_env =
     \<lparr>outgoing_transfers = Map.empty, incoming_transfers = Map.empty, chunk_size = 0,
      progress_callback = False, completed_callback = False, request_callback = None,
      sessions = [peer_A \<mapsto> \<lparr>is_connected = True, socket_ok = True\<rparr>],
      sent = [], callback_log = [],
      id_stream = (\<lambda>n. replicate 16 (of_nat n)), ids_drawn = 0, clock = 1700000000,
      fs_nodes = [''/home/u/report.bin'' \<mapsto> RegularFile (replicate 51200 0x5A),
                  ''/home/u'' \<mapsto> NonRegular],
      fs_cwd = ''/home/u'', fs_can_create = (\<lambda>p. True), fs_write_ok = True,
      uninit_u32 = 0xDEADBEEF, freed_read = ''?''\<rparr>"

definition accept_all :: "PeerId \<Rightarrow> string \<Rightarrow> 64 word \<Rightarrow> bool" where
  "accept_all sender filename fsize = True"

text \<open>The same manager with the three callbacks registered.\<close>

definition example_manager :: State where
  "example_manager =
     (init_manager example_env)\<lparr>progress_callback := True, completed_callback := True,
                                request_callback := Some accept_all\<rparr>"

text \<open>A transfer of 50 KiB was accepted and its chunk 1 has arrived.\<close>

definition example_receiving :: State where
  "example_receiving =
     HandleFileChunk (FileChunkMessage peer_A (replicate 16 1) 1700000001 ''report.bin'' 1 [1, 2, 3])
       (HandleFileTransferRequest
          (FileTransferRequestMessage peer_A (replicate 16 0) 1700000000 ''report.bin'' 51200)
          example_manager)"


text \<open>A request for an empty file, and the manager after handling it.\<close>

definition empty_request :: Message where
  "empty_request = FileTransferRequestMessage peer_A (replicate 16 0) 1700000000 ''empty.txt'' 0"

definition example_after_empty_request :: State where
  "example_after_empty_request = HandleFileTransferRequest empty_request example_manager"

definition example_discovery :: Discovery where
  "example_discovery =
     \<lparr>local_port = 8080, discovered_peers = Map.empty, discovered_callback = True,
      discovered_log = [], steady_now = 100\<rparr>"

definition chat_entry :: "string \<Rightarrow> 64 word \<Rightarrow> ChatInfo" where
  "chat_entry text_arg ts = \<lparr>sender_id = peer_A, sender_name = ''Unknown'', content = text_arg, timestamp = ts\<rparr>"

definition example_history :: "PeerId \<rightharpoonup> ChatInfo list" where
  "example_history =
     push_history (push_history (push_history Map.empty peer_A (chat_entry ''a'' 1))
        peer_A (chat_entry ''b'' 2)) peer_A (chat_entry ''c'' 3)"

section \<open>Round trip of the wire format\<close>

lemma char_of_byte_of_char [simp]: "char_of_byte (byte_of_char c) = c"
  by (simp add: char_of_byte_def byte_of_char_def unat_of_nat)

lemma map_char_of_byte_of_char [simp]: "map char_of_byte (map byte_of_char s) = s"
  by (induction s) simp_all

lemma be_step:
  fixes w :: "'a::len word"
  shows "push_bit 8 (drop_bit (m + 8) w) OR ucast (ucast (drop_bit m w) :: byte) = drop_bit m w"
proof (rule bit_word_eqI)
  fix n assume n: "n < LENGTH('a)"
  show "bit (push_bit 8 (drop_bit (m + 8) w) OR ucast (ucast (drop_bit m w) :: byte)) n
        = bit (drop_bit m w) n"
  proof (cases "n < 8")
    case True
    then show ?thesis using n by (simp add: bit_simps)
  next
    case False
    then have "m + 8 + (n - 8) = m + n" by simp
    then show ?thesis using False n by (simp add: bit_simps)
  qed
qed

lemma drop_bit_32_zero: "drop_bit 32 (w :: 32 word) = 0"
  by (rule bit_word_eqI) (simp add: bit_simps)

lemma drop_bit_64_zero: "drop_bit 64 (w :: 64 word) = 0"
  by (rule bit_word_eqI) (simp add: bit_simps)

lemma be32toh_htobe32 [simp]: "be32toh (htobe32 w) = w"
proof -
  note s = be_step [where w = w]
  show ?thesis
    unfolding be32toh_def htobe32_def
    using s [of 24] s [of 16] s [of 8] s [of 0]
    by (simp add: drop_bit_32_zero)
qed

lemma be64toh_htobe64 [simp]: "be64toh (htobe64 w) = w"
proof -
  note s = be_step [where w = w]
  show ?thesis
    unfolding be64toh_def htobe64_def
    using s [of 56] s [of 48] s [of 40] s [of 32] s [of 24] s [of 16] s [of 8] s [of 0]
    by (simp add: drop_bit_64_zero)
qed

lemma length_htobe32 [simp]: "length (htobe32 w) = 4"
  by (simp add: htobe32_def)

lemma length_htobe64 [simp]: "length (htobe64 w) = 8"
  by (simp add: htobe64_def)


lemma copy_to_fill:
  "length xs = pos \<Longrightarrow> length src \<le> m \<Longrightarrow>
   copy_to (xs @ replicate m z) pos src = (xs @ src) @ replicate (m - length src) z"
  by (simp add: copy_to_def)

lemma copy_to_last:
  "length xs = pos \<Longrightarrow> length src = m \<Longrightarrow> copy_to (xs @ replicate m z) pos src = xs @ src"
  by (simp add: copy_to_def)

lemma write_header_fill:
  assumes "length sender = 32" "length mid = 16" "57 \<le> n"
  shows "write_header (replicate n 0) ty sender mid ts =
         (type_tag ty # sender @ mid @ htobe64 ts) @ replicate (n - 57) 0"
proof -
  obtain k where n: "n = Suc k" using assms(3) by (cases n) auto
  have b1: "(replicate n (0::byte))[0 := type_tag ty] = [type_tag ty] @ replicate k 0"
    by (simp add: n)
  have b2: "copy_to ([type_tag ty] @ replicate k 0) 1 sender = ([type_tag ty] @ sender) @ replicate (k - 32) 0"
    using copy_to_fill[of "[type_tag ty]" 1 sender k 0] assms n by simp
  have b3: "copy_to (([type_tag ty] @ sender) @ replicate (k - 32) 0) 33 mid
            = (([type_tag ty] @ sender) @ mid) @ replicate (k - 32 - 16) 0"
    using copy_to_fill[of "[type_tag ty] @ sender" 33 mid "k - 32" 0] assms n by simp
  have b4: "copy_to ((([type_tag ty] @ sender) @ mid) @ replicate (k - 32 - 16) 0) 49 (htobe64 ts)
            = ((([type_tag ty] @ sender) @ mid) @ htobe64 ts) @ replicate (k - 32 - 16 - 8) 0"
    using copy_to_fill[of "([type_tag ty] @ sender) @ mid" 49 "htobe64 ts" "k - 32 - 16" 0] assms n by simp
  have "k - 32 - 16 - 8 = n - 57" using n by simp
  then show ?thesis
    unfolding write_header_def Let_def b1 b2 b3 b4 by simp
qed

lemma length_header [simp]:
  "length sender = 32 \<Longrightarrow> length mid = 16 \<Longrightarrow> length (type_tag ty # sender @ mid @ htobe64 ts) = 57"
  by simp

lemma Serialize_ChatMessage:
  assumes "length sender = 32" "length mid = 16"
  shows "Serialize (ChatMessage sender mid ts txt) =
         (type_tag CHAT_MESSAGE # sender @ mid @ htobe64 ts) @ htobe32 (of_nat (length txt)) @ map byte_of_char txt"
proof -
  let ?h = "type_tag CHAT_MESSAGE # sender @ mid @ htobe64 ts"
  have h: "length ?h = 57" using assms by simp
  have b1: "write_header (replicate (61 + length txt) 0) CHAT_MESSAGE sender mid ts
            = ?h @ replicate (4 + length txt) 0"
    using write_header_fill[OF assms, of "61 + length txt" CHAT_MESSAGE ts] by simp
  have b2: "copy_to (?h @ replicate (4 + length txt) 0) 57 (htobe32 (of_nat (length txt)))
            = (?h @ htobe32 (of_nat (length txt))) @ replicate (length txt) 0"
    using copy_to_fill[OF h, of "htobe32 (of_nat (length txt))" "4 + length txt" 0] by simp
  have b3: "copy_to ((?h @ htobe32 (of_nat (length txt))) @ replicate (length txt) 0) 61 (map byte_of_char txt)
            = (?h @ htobe32 (of_nat (length txt))) @ map byte_of_char txt"
    using copy_to_last[of "?h @ htobe32 (of_nat (length txt))" 61 "map byte_of_char txt" "length txt" 0] h
    by simp
  show ?thesis
    unfolding Serialize.simps Let_def b1 b2 b3 by simp
qed

lemma subrange_at:
  "length xs = a \<Longrightarrow> length ys = k \<Longrightarrow> d = xs @ ys @ zs \<Longrightarrow> subrange d a (a + k) = ys"
  by (simp add: subrange_def)

lemma char_of_byte_comp [simp]: "char_of_byte \<circ> byte_of_char = id"
  by (rule ext) simp

lemma Chat_roundtrip:
  assumes "length sender = 32" "length mid = 16" "length txt < 2 ^ 32"
  shows "ChatMessage_Deserialize (Serialize (ChatMessage sender mid ts txt)) = Some (ChatMessage sender mid ts txt)"
proof -
  let ?L = "htobe32 (of_nat (length txt))"
  let ?C = "map byte_of_char txt"
  let ?d = "type_tag CHAT_MESSAGE # sender @ mid @ htobe64 ts @ ?L @ ?C"
  have d: "Serialize (ChatMessage sender mid ts txt) = ?d"
    using Serialize_ChatMessage[OF assms(1,2)] by simp
  have len: "length ?d = 61 + length txt" using assms by simp
  have s1: "subrange ?d 1 33 = sender" using assms by (simp add: subrange_def)
  have s2: "subrange ?d 33 49 = mid" using assms by (simp add: subrange_def)
  have s3: "subrange ?d 49 57 = htobe64 ts" using assms by (simp add: subrange_def)
  have s4: "subrange ?d 57 61 = ?L" using assms by (simp add: subrange_def)
  have s5: "subrange ?d 61 (61 + length txt) = ?C" using assms by (simp add: subrange_def)
  have u: "unat (of_nat (length txt) :: 32 word) = length txt"
    using assms(3) by (simp add: unat_of_nat)
  show ?thesis
    unfolding d ChatMessage_Deserialize_def Let_def s1 s2 s3 s4 be32toh_htobe32 be64toh_htobe64 u s5
    using len by simp
qed

lemma Serialize_FileTransferRequestMessage:
  assumes "length sender = 32" "length mid = 16"
  shows "Serialize (FileTransferRequestMessage sender mid ts filename fsize) =
         (type_tag FILE_TRANSFER_REQUEST # sender @ mid @ htobe64 ts) @ htobe64 fsize
           @ htobe32 (of_nat (length filename)) @ map byte_of_char filename"
proof -
  let ?h = "type_tag FILE_TRANSFER_REQUEST # sender @ mid @ htobe64 ts"
  let ?n = "length filename"
  let ?L = "htobe32 (of_nat ?n)"
  have h: "length ?h = 57" using assms by simp
  have b1: "write_header (replicate (69 + ?n) 0) FILE_TRANSFER_REQUEST sender mid ts
            = ?h @ replicate (12 + ?n) 0"
    using write_header_fill[OF assms, of "69 + ?n" FILE_TRANSFER_REQUEST ts] by simp
  have b2: "copy_to (?h @ replicate (12 + ?n) 0) 57 (htobe64 fsize)
            = (?h @ htobe64 fsize) @ replicate (4 + ?n) 0"
    using copy_to_fill[OF h, of "htobe64 fsize" "12 + ?n" 0] by simp
  have b3: "copy_to ((?h @ htobe64 fsize) @ replicate (4 + ?n) 0) 65 ?L
            = ((?h @ htobe64 fsize) @ ?L) @ replicate ?n 0"
    using copy_to_fill[of "?h @ htobe64 fsize" 65 ?L "4 + ?n" 0] h by simp
  have b4: "copy_to (((?h @ htobe64 fsize) @ ?L) @ replicate ?n 0) 69 (map byte_of_char filename)
            = ((?h @ htobe64 fsize) @ ?L) @ map byte_of_char filename"
    using copy_to_last[of "(?h @ htobe64 fsize) @ ?L" 69 "map byte_of_char filename" ?n 0] h
    by simp
  show ?thesis
    unfolding Serialize.simps Let_def b1 b2 b3 b4 by simp
qed

lemma Request_roundtrip:
  assumes "length sender = 32" "length mid = 16" "length filename < 2 ^ 32"
  shows "FileTransferRequestMessage_Deserialize (Serialize (FileTransferRequestMessage sender mid ts filename fsize))
         = Some (FileTransferRequestMessage sender mid ts filename fsize)"
proof -
  let ?L = "htobe32 (of_nat (length filename))"
  let ?C = "map byte_of_char filename"
  let ?d = "type_tag FILE_TRANSFER_REQUEST # sender @ mid @ htobe64 ts @ htobe64 fsize @ ?L @ ?C"
  have d: "Serialize (FileTransferRequestMessage sender mid ts filename fsize) = ?d"
    using Serialize_FileTransferRequestMessage[OF assms(1,2)] by simp
  have len: "length ?d = 69 + length filename" using assms by simp
  have s1: "subrange ?d 1 33 = sender" using assms by (simp add: subrange_def)
  have s2: "subrange ?d 33 49 = mid" using assms by (simp add: subrange_def)
  have s3: "subrange ?d 49 57 = htobe64 ts" using assms by (simp add: subrange_def)
  have s4: "subrange ?d 57 65 = htobe64 fsize" using assms by (simp add: subrange_def)
  have s5: "subrange ?d 65 69 = ?L" using assms by (simp add: subrange_def)
  have s6: "subrange ?d 69 (69 + length filename) = ?C" using assms by (simp add: subrange_def)
  have u: "unat (of_nat (length filename) :: 32 word) = length filename"
    using assms(3) by (simp add: unat_of_nat)
  show ?thesis
    unfolding d FileTransferRequestMessage_Deserialize_def Let_def s1 s2 s3 s4 s5 be32toh_htobe32 be64toh_htobe64 u s6
    using len by simp
qed

lemma Serialize_FileChunkMessage:
  assumes "length sender = 32" "length mid = 16"
  shows "Serialize (FileChunkMessage sender mid ts fid chunk_index data) =
         (type_tag FILE_CHUNK # sender @ mid @ htobe64 ts) @ htobe32 (of_nat (length fid))
           @ map byte_of_char fid @ htobe32 chunk_index @ htobe32 (of_nat (length data)) @ data"
proof -
  let ?h = "type_tag FILE_CHUNK # sender @ mid @ htobe64 ts"
  let ?n = "length fid"
  let ?m = "length data"
  let ?L = "htobe32 (of_nat ?n)"
  let ?F = "map byte_of_char fid"
  let ?K = "htobe32 chunk_index"
  let ?D = "htobe32 (of_nat ?m)"
  have h: "length ?h = 57" using assms by simp
  have b1: "write_header (replicate (69 + ?n + ?m) 0) FILE_CHUNK sender mid ts
            = ?h @ replicate (12 + ?n + ?m) 0"
    using write_header_fill[OF assms, of "69 + ?n + ?m" FILE_CHUNK ts] by simp
  have b2: "copy_to (?h @ replicate (12 + ?n + ?m) 0) 57 ?L
            = (?h @ ?L) @ replicate (8 + ?n + ?m) 0"
    using copy_to_fill[OF h, of ?L "12 + ?n + ?m" 0] by simp
  have b3: "copy_to ((?h @ ?L) @ replicate (8 + ?n + ?m) 0) 61 ?F
            = ((?h @ ?L) @ ?F) @ replicate (8 + ?m) 0"
    using copy_to_fill[of "?h @ ?L" 61 ?F "8 + ?n + ?m" 0] h by simp
  have b4: "copy_to (((?h @ ?L) @ ?F) @ replicate (8 + ?m) 0) (61 + ?n) ?K
            = (((?h @ ?L) @ ?F) @ ?K) @ replicate (4 + ?m) 0"
    using copy_to_fill[of "(?h @ ?L) @ ?F" "61 + ?n" ?K "8 + ?m" 0] h by simp
  have b5: "copy_to ((((?h @ ?L) @ ?F) @ ?K) @ replicate (4 + ?m) 0) (65 + ?n) ?D
            = ((((?h @ ?L) @ ?F) @ ?K) @ ?D) @ replicate ?m 0"
    using copy_to_fill[of "((?h @ ?L) @ ?F) @ ?K" "65 + ?n" ?D "4 + ?m" 0] h by simp
  have b6: "copy_to (((((?h @ ?L) @ ?F) @ ?K) @ ?D) @ replicate ?m 0) (69 + ?n) data
            = ((((?h @ ?L) @ ?F) @ ?K) @ ?D) @ data"
    using copy_to_last[of "(((?h @ ?L) @ ?F) @ ?K) @ ?D" "69 + ?n" data ?m 0] h by simp
  show ?thesis
    unfolding Serialize.simps Let_def b1 b2 b3 b4 b5 b6 by simp
qed

lemma Chunk_roundtrip:
  assumes "length sender = 32" "length mid = 16" "length fid < 2 ^ 32" "length data < 2 ^ 32"
  shows "FileChunkMessage_Deserialize (Serialize (FileChunkMessage sender mid ts fid chunk_index data))
         = Some (FileChunkMessage sender mid ts fid chunk_index data)"
proof -
  let ?n = "length fid"
  let ?m = "length data"
  let ?L = "htobe32 (of_nat ?n)"
  let ?F = "map byte_of_char fid"
  let ?K = "htobe32 chunk_index"
  let ?D = "htobe32 (of_nat ?m)"
  let ?d = "type_tag FILE_CHUNK # sender @ mid @ htobe64 ts @ ?L @ ?F @ ?K @ ?D @ data"
  have d: "Serialize (FileChunkMessage sender mid ts fid chunk_index data) = ?d"
    using Serialize_FileChunkMessage[OF assms(1,2)] by simp
  have len: "length ?d = 69 + ?n + ?m" using assms by simp
  have s1: "subrange ?d 1 33 = sender" using assms by (simp add: subrange_def)
  have s2: "subrange ?d 33 49 = mid" using assms by (simp add: subrange_def)
  have s3: "subrange ?d 49 57 = htobe64 ts" using assms by (simp add: subrange_def)
  have s4: "subrange ?d 57 61 = ?L" using assms by (simp add: subrange_def)
  have s5: "subrange ?d 61 (61 + ?n) = ?F" using assms by (simp add: subrange_def)
  have s6: "subrange ?d (61 + ?n) (65 + ?n) = ?K"
    using subrange_at[of "type_tag FILE_CHUNK # sender @ mid @ htobe64 ts @ ?L @ ?F" "61 + ?n" ?K 4 ?d "?D @ data"] assms
    by (simp add: add.commute)
  have s7: "subrange ?d (65 + ?n) (69 + ?n) = ?D"
    using subrange_at[of "type_tag FILE_CHUNK # sender @ mid @ htobe64 ts @ ?L @ ?F @ ?K" "65 + ?n" ?D 4 ?d data] assms
    by (simp add: add.commute)
  have s8: "subrange ?d (69 + ?n) (69 + ?n + ?m) = data"
    using subrange_at[of "type_tag FILE_CHUNK # sender @ mid @ htobe64 ts @ ?L @ ?F @ ?K @ ?D" "69 + ?n" data ?m ?d "[]"] assms
    by simp
  have u: "unat (of_nat ?n :: 32 word) = ?n" "unat (of_nat ?m :: 32 word) = ?m"
    using assms(3,4) by (simp_all add: unat_of_nat)
  show ?thesis
    unfolding d FileChunkMessage_Deserialize_def Let_def s1 s2 s3 s4 be32toh_htobe32 be64toh_htobe64 u s5 s6 s7 s8
    using len by simp
qed


lemma update_fill:
  "length xs = pos \<Longrightarrow> 0 < m \<Longrightarrow>
   (xs @ replicate m z)[pos := v] = (xs @ [v]) @ replicate (m - 1) z"
  by (cases m) (simp_all add: list_update_append)

lemma Serialize_FileTransferCompleteMessage:
  assumes "length sender = 32" "length mid = 16"
  shows "Serialize (FileTransferCompleteMessage sender mid ts fid success error_message) =
         (type_tag FILE_TRANSFER_COMPLETE # sender @ mid @ htobe64 ts) @ htobe32 (of_nat (length fid))
           @ map byte_of_char fid @ [if success then 1 else 0]
           @ htobe32 (of_nat (length error_message)) @ map byte_of_char error_message"
proof -
  let ?h = "type_tag FILE_TRANSFER_COMPLETE # sender @ mid @ htobe64 ts"
  let ?n = "length fid"
  let ?m = "length error_message"
  let ?L = "htobe32 (of_nat ?n)"
  let ?F = "map byte_of_char fid"
  let ?S = "(if success then 1 else 0) :: byte"
  let ?E = "htobe32 (of_nat ?m)"
  let ?M = "map byte_of_char error_message"
  have h: "length ?h = 57" using assms by simp
  have b1: "write_header (replicate (66 + ?n + ?m) 0) FILE_TRANSFER_COMPLETE sender mid ts
            = ?h @ replicate (9 + ?n + ?m) 0"
    using write_header_fill[OF assms, of "66 + ?n + ?m" FILE_TRANSFER_COMPLETE ts] by simp
  have b2: "copy_to (?h @ replicate (9 + ?n + ?m) 0) 57 ?L
            = (?h @ ?L) @ replicate (5 + ?n + ?m) 0"
    using copy_to_fill[OF h, of ?L "9 + ?n + ?m" 0] by simp
  have b3: "copy_to ((?h @ ?L) @ replicate (5 + ?n + ?m) 0) 61 ?F
            = ((?h @ ?L) @ ?F) @ replicate (5 + ?m) 0"
    using copy_to_fill[of "?h @ ?L" 61 ?F "5 + ?n + ?m" 0] h by simp
  have b4: "(((?h @ ?L) @ ?F) @ replicate (5 + ?m) 0)[61 + ?n := ?S]
            = (((?h @ ?L) @ ?F) @ [?S]) @ replicate (4 + ?m) 0"
    using update_fill[of "(?h @ ?L) @ ?F" "61 + ?n" "5 + ?m" 0 ?S] h by simp
  have b5: "copy_to ((((?h @ ?L) @ ?F) @ [?S]) @ replicate (4 + ?m) 0) (62 + ?n) ?E
            = ((((?h @ ?L) @ ?F) @ [?S]) @ ?E) @ replicate ?m 0"
    using copy_to_fill[of "((?h @ ?L) @ ?F) @ [?S]" "62 + ?n" ?E "4 + ?m" 0] h by simp
  have b6: "copy_to (((((?h @ ?L) @ ?F) @ [?S]) @ ?E) @ replicate ?m 0) (66 + ?n) ?M
            = ((((?h @ ?L) @ ?F) @ [?S]) @ ?E) @ ?M"
    using copy_to_last[of "(((?h @ ?L) @ ?F) @ [?S]) @ ?E" "66 + ?n" ?M ?m 0] h by simp
  show ?thesis
    unfolding Serialize.simps Let_def b1 b2 b3 b4 b5 b6 by simp
qed

lemma Complete_roundtrip:
  assumes "length sender = 32" "length mid = 16" "length fid < 2 ^ 32" "length error_message < 2 ^ 32"
  shows "FileTransferCompleteMessage_Deserialize
           (Serialize (FileTransferCompleteMessage sender mid ts fid success error_message))
         = Some (FileTransferCompleteMessage sender mid ts fid success error_message)"
proof -
  let ?n = "length fid"
  let ?m = "length error_message"
  let ?L = "htobe32 (of_nat ?n)"
  let ?F = "map byte_of_char fid"
  let ?S = "(if success then 1 else 0) :: byte"
  let ?E = "htobe32 (of_nat ?m)"
  let ?M = "map byte_of_char error_message"
  let ?d = "type_tag FILE_TRANSFER_COMPLETE # sender @ mid @ htobe64 ts @ ?L @ ?F @ [?S] @ ?E @ ?M"
  have d: "Serialize (FileTransferCompleteMessage sender mid ts fid success error_message) = ?d"
    using Serialize_FileTransferCompleteMessage[OF assms(1,2)] by simp
  have len: "length ?d = 66 + ?n + ?m" using assms by simp
  have s1: "subrange ?d 1 33 = sender" using assms by (simp add: subrange_def)
  have s2: "subrange ?d 33 49 = mid" using assms by (simp add: subrange_def)
  have s3: "subrange ?d 49 57 = htobe64 ts" using assms by (simp add: subrange_def)
  have s4: "subrange ?d 57 61 = ?L" using assms by (simp add: subrange_def)
  have s5: "subrange ?d 61 (61 + ?n) = ?F" using assms by (simp add: subrange_def)
  have s6: "?d ! (61 + ?n) = ?S"
    using nth_append_length[of "type_tag FILE_TRANSFER_COMPLETE # sender @ mid @ htobe64 ts @ ?L @ ?F" ?S "?E @ ?M"] assms
    by (simp add: add.commute)
  have s7: "subrange ?d (62 + ?n) (66 + ?n) = ?E"
    using subrange_at[of "type_tag FILE_TRANSFER_COMPLETE # sender @ mid @ htobe64 ts @ ?L @ ?F @ [?S]" "62 + ?n" ?E 4 ?d ?M] assms
    by (simp add: add.commute)
  have s8: "subrange ?d (66 + ?n) (66 + ?n + ?m) = ?M"
    using subrange_at[of "type_tag FILE_TRANSFER_COMPLETE # sender @ mid @ htobe64 ts @ ?L @ ?F @ [?S] @ ?E" "66 + ?n" ?M ?m ?d "[]"] assms
    by simp
  have u: "unat (of_nat ?n :: 32 word) = ?n" "unat (of_nat ?m :: 32 word) = ?m"
    using assms(3,4) by (simp_all add: unat_of_nat)
  have flag: "(?S \<noteq> 0) = success" by simp
  show ?thesis
    unfolding d FileTransferCompleteMessage_Deserialize_def Let_def s1 s2 s3 s4 be32toh_htobe32 be64toh_htobe64 u s5 s6 s7 s8 flag
    using len by simp
qed

lemma Serialize_first_byte:
  assumes "wire_ok m"
  shows "Serialize m \<noteq> [] \<and> Serialize m ! 0 = type_tag (GetType m) \<and> 33 \<le> length (Serialize m)"
proof (cases m)
  case (ChatMessage s i t c)
  then show ?thesis using assms Serialize_ChatMessage[of s i t c] by simp
next
  case (FileTransferRequestMessage s i t f n)
  then show ?thesis using assms Serialize_FileTransferRequestMessage[of s i t f n] by simp
next
  case (FileChunkMessage s i t f k d)
  then show ?thesis using assms Serialize_FileChunkMessage[of s i t f k d] by simp
next
  case (FileTransferCompleteMessage s i t f ok e)
  then show ?thesis using assms Serialize_FileTransferCompleteMessage[of s i t f ok e] by simp
qed

lemma Deserialize_Serialize:
  assumes "wire_ok m"
  shows "Deserialize (GetType m) (Serialize m) = Some m"
proof (cases m)
  case (ChatMessage s i t c)
  then show ?thesis using assms Chat_roundtrip[of s i c t] by simp
next
  case (FileTransferRequestMessage s i t f n)
  then show ?thesis using assms Request_roundtrip[of s i f t n] by simp
next
  case (FileChunkMessage s i t f k d)
  then show ?thesis using assms Chunk_roundtrip[of s i f d t k] by simp
next
  case (FileTransferCompleteMessage s i t f ok e)
  then show ?thesis using assms Complete_roundtrip[of s i f e t ok] by simp
qed

text \<open>
  Claim C1, as the code has it. A message whose sender has 32 bytes, whose message id has
  16 and whose strings and data are shorter than \<open>2 ^ 32\<close> bytes is given back by the
  \<^verbatim>\<open>Deserialize\<close> of its own class applied to its \<^verbatim>\<open>Serialize\<close>, with kind, sender,
  message id, timestamp and body fields; for a chat message and a file transfer request
  \<^verbatim>\<open>MessageFactory::CreateFromBuffer\<close> gives it back as well.
\<close>

theorem wire_roundtrip:
  assumes "wire_ok m"
  shows "Deserialize (GetType m) (Serialize m) = Some m \<and>
         (GetType m = CHAT_MESSAGE \<or> GetType m = FILE_TRANSFER_REQUEST
            \<longrightarrow> CreateFromBuffer (Serialize m) = Some m)"
proof -
  have a: "Deserialize (GetType m) (Serialize m) = Some m"
    by (rule Deserialize_Serialize [OF assms])
  have b: "Serialize m \<noteq> []" "Serialize m ! 0 = type_tag (GetType m)" "33 \<le> length (Serialize m)"
    using Serialize_first_byte [OF assms] by simp_all
  show ?thesis
    using a b by (auto simp: CreateFromBuffer_def)
qed

text \<open>The round trip at a chat message.\<close>

theorem wire_roundtrip_witness:
  "wire_ok (ChatMessage (replicate 32 7) (replicate 16 9) 1700000000 ''hi'') \<and>
   CreateFromBuffer (Serialize (ChatMessage (replicate 32 7) (replicate 16 9) 1700000000 ''hi''))
     = Some (ChatMessage (replicate 32 7) (replicate 16 9) 1700000000 ''hi'')"
  using wire_roundtrip [of "ChatMessage (replicate 32 7) (replicate 16 9) 1700000000 ''hi''"]
  by simp

text \<open>
  Claim C1 as stated fails: the factory gives the null pointer for a serialized file
  chunk, and a chat message of \<open>2 ^ 32\<close> characters comes back with its txt cut,
  its length field having wrapped to 0.
\<close>

theorem wire_roundtrip_counterexample:
  "wire_ok (FileChunkMessage (replicate 32 7) (replicate 16 9) 1700000000 ''a.bin'' 0 [1, 2, 3]) \<and>
   CreateFromBuffer (Serialize (FileChunkMessage (replicate 32 7) (replicate 16 9) 1700000000 ''a.bin'' 0 [1, 2, 3]))
     = None \<and>
   CreateFromBuffer (Serialize (ChatMessage (replicate 32 7) (replicate 16 9) 1700000000 (replicate (2 ^ 32) CHR ''x'')))
     \<noteq> Some (ChatMessage (replicate 32 7) (replicate 16 9) 1700000000 (replicate (2 ^ 32) CHR ''x''))"
proof -
  let ?s = "replicate 32 (7::byte)" and ?i = "replicate 16 (9::byte)"
  let ?m = "FileChunkMessage ?s ?i 1700000000 ''a.bin'' 0 [1, 2, 3]"
  let ?big = "replicate (2 ^ 32) CHR ''x''"
  have a: "wire_ok ?m" by simp
  have b: "CreateFromBuffer (Serialize ?m) = None"
    using Serialize_FileChunkMessage[of ?s ?i 1700000000 "''a.bin''" 0 "[1, 2, 3]"]
    by (simp add: CreateFromBuffer_def)
  have z: "(of_nat (length ?big) :: 32 word) = 0" by simp
  have c: "CreateFromBuffer (Serialize (ChatMessage ?s ?i 1700000000 ?big))
           = Some (ChatMessage ?s ?i 1700000000 [])"
    using Serialize_ChatMessage[of ?s ?i 1700000000 ?big]
    unfolding z
    by (simp add: CreateFromBuffer_def ChatMessage_Deserialize_def subrange_def be32toh_def htobe32_def)
  show ?thesis using a b c by simp
qed

section \<open>Kinds the factory does not build\<close>

text \<open>
  Claim C3. For every buffer whose first byte is neither 0 (chat message) nor 1 (file
  transfer request), \<^verbatim>\<open>MessageFactory::CreateFromBuffer\<close> returns the null pointer, and
  the read loop of the session, on such a frame, does not call the message callback: so
  no file chunk, transfer completion, ping, pong or connection notification frame reaches
  it.
\<close>

theorem CreateFromBuffer_unsupported:
  assumes "data \<noteq> []" "data ! 0 \<noteq> 0" "data ! 0 \<noteq> 1"
  shows "CreateFromBuffer data = None \<and> ReadMessage_deliver data = []"
  using assms by (simp add: CreateFromBuffer_def ReadMessage_deliver_def)

text \<open>A serialized file chunk is such a frame.\<close>

theorem CreateFromBuffer_unsupported_witness:
  "Serialize (FileChunkMessage (replicate 32 1) (replicate 16 2) 5 ''f'' 1 [9, 9]) \<noteq> [] \<and>
   Serialize (FileChunkMessage (replicate 32 1) (replicate 16 2) 5 ''f'' 1 [9, 9]) ! 0 = 3 \<and>
   CreateFromBuffer (Serialize (FileChunkMessage (replicate 32 1) (replicate 16 2) 5 ''f'' 1 [9, 9])) = None \<and>
   ReadMessage_deliver (Serialize (FileChunkMessage (replicate 32 1) (replicate 16 2) 5 ''f'' 1 [9, 9])) = []"
proof -
  let ?d = "Serialize (FileChunkMessage (replicate 32 1) (replicate 16 2) 5 ''f'' 1 [9, 9])"
  have a: "?d \<noteq> []" "?d ! 0 = 3"
    using Serialize_FileChunkMessage[of "replicate 32 1" "replicate 16 2" 5 "''f''" 1 "[9, 9]"]
    by simp_all
  then have b: "?d ! 0 \<noteq> 0" "?d ! 0 \<noteq> 1" by simp_all
  show ?thesis
    using a CreateFromBuffer_unsupported [OF a(1) b] by simp
qed

section \<open>The duplicate chunk\<close>

text \<open>
  Claim C7. When a file chunk arrives whose index is already in the received-chunk set of
  the matching incoming transfer, the handler returns at once. The state after it is the
  state before it: the transfer's \<^verbatim>\<open>bytes_transferred\<close>, received-chunk set, output
  stream and status, the list of sent messages (no acknowledgement, no completion) and the
  callback log (no progress callback) are all unchanged. The same holds through
  \<^verbatim>\<open>HandleMessage\<close>.
\<close>

theorem HandleFileChunk_duplicate:
  assumes "already_received s sender fid chunk_index"
  shows "HandleFileChunk (FileChunkMessage sender mid ts fid chunk_index data_arg) s = s \<and>
         HandleMessage (FileChunkMessage sender mid ts fid chunk_index data_arg) s = s"
  using assms
  by (auto simp: already_received_def HandleFileChunk_def HandleMessage_def split: option.splits)

lemma example_receiving_entry:
  "incoming_transfers example_receiving (peer_A, ''report.bin'') =
     Some \<lparr>file_path = ''/home/u/downloads/report.bin'', file_id = ''report.bin'', file_size = 51200,
           peer_id = peer_A, status = IN_PROGRESS, bytes_transferred = 3,
           input_stream = closed_ifstream,
           output_stream = \<lparr>out_open = True, out_fail = False, out_data = replicate 16384 0 @ [1, 2, 3]\<rparr>,
           next_chunk_index = 0, received_chunks = [1 \<mapsto> True]\<rparr>"
  by (simp add: example_receiving_def example_manager_def example_env_def init_manager_def
      HandleFileTransferRequest_def HandleFileChunk_def path_join_def seekp_write_def write_at_def
      log_progress_def DEFAULT_CHUNK_SIZE_def accept_all_def Let_def)

text \<open>Chunk 1 arrives a second time, in a message of its own.\<close>

theorem HandleFileChunk_duplicate_witness:
  "already_received example_receiving peer_A ''report.bin'' 1 \<and>
   HandleFileChunk (FileChunkMessage peer_A (replicate 16 2) 1700000002 ''report.bin'' 1 [1, 2, 3])
     example_receiving = example_receiving"
proof -
  have a: "already_received example_receiving peer_A ''report.bin'' 1"
    by (simp add: already_received_def example_receiving_entry)
  show ?thesis
    using a HandleFileChunk_duplicate [OF a, of "replicate 16 2" 1700000002 "[1, 2, 3]"] by simp
qed

section \<open>A request of total size 0\<close>

text \<open>
  Claim C6, as the code has it. When a file transfer request of total size 0 is accepted
  and the output file is opened, the request handler records the incoming transfer as in
  progress with 0 bytes and an empty received-chunk set; it sends nothing and calls no
  callback. The transfer completes when the first file chunk for it has arrived and been
  written, whatever its index and data: then the completion with \<^verbatim>\<open>success = true\<close> is
  sent to the sender and the entry is removed.
\<close>

theorem zero_size_request:
  assumes "accepts s sender filename 0"
  shows "sent (HandleFileTransferRequest (FileTransferRequestMessage sender mid ts filename 0) s) = sent s \<and>
         callback_log (HandleFileTransferRequest (FileTransferRequestMessage sender mid ts filename 0) s)
           = callback_log s \<and>
         (\<exists>t. incoming_transfers
                 (HandleFileTransferRequest (FileTransferRequestMessage sender mid ts filename 0) s)
                 (sender, filename) = Some t \<and>
              status t = IN_PROGRESS \<and> bytes_transferred t = 0 \<and> file_size t = 0 \<and>
              received_chunks t = Map.empty \<and> out_open (output_stream t)) \<and>
         (fs_write_ok s \<and> sessions s sender = Some \<lparr>is_connected = True, socket_ok = True\<rparr> \<longrightarrow>
            incoming_transfers
              (HandleFileChunk (FileChunkMessage sender cmid cts filename k data_arg)
                 (HandleFileTransferRequest (FileTransferRequestMessage sender mid ts filename 0) s))
              (sender, filename) = None \<and>
            sent (HandleFileChunk (FileChunkMessage sender cmid cts filename k data_arg)
                 (HandleFileTransferRequest (FileTransferRequestMessage sender mid ts filename 0) s))
              = sent s @ [(sender, FileTransferCompleteMessage sender (id_stream s (ids_drawn s)) (clock s)
                                     filename True [])])"
  using assms
  by (auto simp: accepts_def HandleFileTransferRequest_def HandleFileChunk_def Let_def seekp_write_def
      send_new_def SendMessage_def log_progress_def log_completed_def split: option.splits)

lemma example_manager_fields:
  "sent example_manager = []" "callback_log example_manager = []"
  "fs_write_ok example_manager"
  "sessions example_manager peer_A = Some \<lparr>is_connected = True, socket_ok = True\<rparr>"
  "id_stream example_manager (ids_drawn example_manager) = replicate 16 0"
  "clock example_manager = 1700000000"
  by (simp_all add: example_manager_def init_manager_def example_env_def)

lemma example_accepts: "accepts example_manager peer_A ''empty.txt'' 0"
  by (simp add: accepts_def example_manager_def init_manager_def example_env_def accept_all_def)

text \<open>The request for an empty file, then an empty chunk 0.\<close>

theorem zero_size_request_witness:
  "accepts example_manager peer_A ''empty.txt'' 0 \<and>
   sent example_after_empty_request = [] \<and>
   sent (HandleFileChunk (FileChunkMessage peer_A (replicate 16 1) 1700000001 ''empty.txt'' 0 [])
           example_after_empty_request)
     = [(peer_A, FileTransferCompleteMessage peer_A (replicate 16 0) 1700000000 ''empty.txt'' True [])] \<and>
   incoming_transfers
     (HandleFileChunk (FileChunkMessage peer_A (replicate 16 1) 1700000001 ''empty.txt'' 0 [])
        example_after_empty_request) (peer_A, ''empty.txt'') = None"
  using example_accepts
    zero_size_request [OF example_accepts, of "replicate 16 0" 1700000000 "replicate 16 1" 1700000001 0 "[]"]
  by (simp add: example_after_empty_request_def empty_request_def example_manager_fields)

text \<open>
  Claim C6 as stated fails: after the accepted request for an empty file, and before any
  chunk, nothing has been sent, no callback has run and the entry is in the table, in
  progress.
\<close>

theorem zero_size_request_counterexample:
  "accepts example_manager peer_A ''empty.txt'' 0 \<and>
   sent example_after_empty_request = [] \<and>
   callback_log example_after_empty_request = [] \<and>
   map_option status (incoming_transfers example_after_empty_request (peer_A, ''empty.txt''))
     = Some IN_PROGRESS"
  using example_accepts
  by (simp add: example_after_empty_request_def empty_request_def HandleFileTransferRequest_def
      example_manager_def init_manager_def example_env_def accept_all_def Let_def)

section \<open>The contract of \<^verbatim>\<open>SendFile\<close>\<close>

lemma send_new_outgoing [simp]:
  "outgoing_transfers (snd (send_new build peer s)) = outgoing_transfers s"
  by (simp add: send_new_def SendMessage_def split: option.splits)

lemma log_completed_fields [simp]:
  "outgoing_transfers (log_completed p path ok err s) = outgoing_transfers s"
  "sent (log_completed p path ok err s) = sent s"
  "sessions (log_completed p path ok err s) = sessions s"
  "chunk_size (log_completed p path ok err s) = chunk_size s"
  by (simp_all add: log_completed_def)

lemma log_progress_fields [simp]:
  "outgoing_transfers (log_progress p t s) = outgoing_transfers s"
  "sent (log_progress p t s) = sent s"
  "sessions (log_progress p t s) = sessions s"
  "chunk_size (log_progress p t s) = chunk_size s"
  "ids_drawn (log_progress p t s) = ids_drawn s"
  "id_stream (log_progress p t s) = id_stream s"
  "clock (log_progress p t s) = clock s"
  by (simp_all add: log_progress_def)

lemma all_pending_SendFile: "all_pending s \<Longrightarrow> all_pending (snd (SendFile peer path s))"
  unfolding all_pending_def SendFile_def
  by (simp add: Let_def split_beta emplace_def split: option.splits FsNode.splits)

lemma all_pending_CancelTransfer: "all_pending s \<Longrightarrow> all_pending (CancelTransfer peer path s)"
  unfolding all_pending_def CancelTransfer_def
  by (auto simp: Let_def split_beta split: option.splits if_splits)

lemma HandleFileTransferRequest_outgoing [simp]:
  "outgoing_transfers (HandleFileTransferRequest m s) = outgoing_transfers s"
  by (cases m) (simp_all add: HandleFileTransferRequest_def Let_def)

lemma HandleFileChunk_outgoing [simp]:
  "outgoing_transfers (HandleFileChunk m s) = outgoing_transfers s"
  by (cases m) (simp_all add: HandleFileChunk_def Let_def split_beta split: option.splits)

lemma all_pending_HandleFileTransferComplete:
  "all_pending s \<Longrightarrow> all_pending (HandleFileTransferComplete m s)"
  unfolding all_pending_def
  by (cases m) (auto simp: HandleFileTransferComplete_def Let_def split: option.splits if_splits)

lemma all_pending_HandleMessage: "all_pending s \<Longrightarrow> all_pending (HandleMessage m s)"
  using all_pending_HandleFileTransferComplete [of s m]
  by (cases "GetType m") (simp_all add: HandleMessage_def all_pending_def)

text \<open>
  No public member moves an outgoing transfer out of \<^verbatim>\<open>PENDING\<close> and keeps it: the
  handlers that set another status erase the entry in the same call.
\<close>

lemma reachable_all_pending: "reachable s \<Longrightarrow> all_pending s"
proof (induction rule: reachable.induct)
  case (r_init env)
  show ?case by (simp add: all_pending_def init_manager_def)
next
  case (r_SendFile s peer path)
  then show ?case by (simp add: all_pending_SendFile)
next
  case (r_CancelTransfer s peer path)
  then show ?case by (simp add: all_pending_CancelTransfer)
next
  case (r_HandleMessage s message)
  then show ?case by (simp add: all_pending_HandleMessage)
qed (simp_all add: all_pending_def)

lemma SendFile_not_found: "fs_nodes s path = None \<Longrightarrow> SendFile peer path s = (Inr False, s)"
  by (simp add: SendFile_def)

lemma SendFile_throws:
  "(\<exists>e. fst (SendFile peer path s) = Inl e) \<longleftrightarrow>
     fs_nodes s path = Some NonRegular \<or> fs_nodes s path = Some Unreadable"
  "fs_nodes s path = Some NonRegular \<or> fs_nodes s path = Some Unreadable \<Longrightarrow>
     snd (SendFile peer path s) = s"
  by (auto simp: SendFile_def Let_def split_beta split: option.splits FsNode.splits)

lemma SendFile_no_session:
  "no_session s peer \<Longrightarrow>
     fst (SendFile peer path s) \<noteq> Inr True \<and> sent (snd (SendFile peer path s)) = sent s \<and>
     (fs_nodes s path = Some (RegularFile bytes) \<longrightarrow> fst (SendFile peer path s) = Inr False)"
  by (auto simp: no_session_def SendFile_def send_new_def SendMessage_def Let_def
      split: option.splits FsNode.splits)

lemma SendFile_sent:
  "sent (snd (SendFile peer path s)) =
     (if fst (SendFile peer path s) = Inr True
      then sent s @ [(peer, FileTransferRequestMessage peer (id_stream s (ids_drawn s)) (clock s)
                              (path_filename path) (of_nat (length (regular_bytes s path))))]
      else sent s)"
  by (auto simp: SendFile_def send_new_def SendMessage_def Let_def regular_bytes_def
      split: option.splits FsNode.splits)

lemma SendFile_entry:
  assumes "all_pending s" "fst (SendFile peer path s) = Inr True"
  shows "\<exists>e. outgoing_transfers (snd (SendFile peer path s)) (peer, path) = Some e \<and> status e = PENDING"
proof -
  from assms(2) obtain bytes where b: "fs_nodes s path = Some (RegularFile bytes)"
    by (auto simp: SendFile_def split: option.splits FsNode.splits)
  show ?thesis
  proof (cases "outgoing_transfers s (peer, path)")
    case None
    then show ?thesis using assms(2) b
      by (auto simp: SendFile_def Let_def split_beta emplace_def split: option.splits if_splits)
  next
    case (Some old)
    then have "status old = PENDING" using assms(1) by (simp add: all_pending_def)
    then show ?thesis using assms(2) b Some
      by (auto simp: SendFile_def Let_def split_beta emplace_def split: option.splits if_splits)
  qed
qed

text \<open>
  Claim C8. In every state the manager can reach: \<^verbatim>\<open>SendFile\<close> returns false and leaves
  everything as it was, so before any network send, when the path does not exist; with no
  connected session for the peer it does not succeed and sends nothing, and returns false
  when the path is a regular file; the file transfer request has been sent exactly when
  it returns true; and when it returns true an outgoing transfer keyed by the peer and the
  path is in the table with status \<^verbatim>\<open>PENDING\<close>. \<^verbatim>\<open>SendFile\<close> ends in an exception, with
  nothing sent or stored, exactly when the path exists without being a regular file or
  cannot be reached.
\<close>

theorem SendFile_contract:
  assumes "reachable s"
  shows "(fs_nodes s path = None \<longrightarrow> SendFile peer path s = (Inr False, s)) \<and>
         (no_session s peer \<longrightarrow>
            fst (SendFile peer path s) \<noteq> Inr True \<and> sent (snd (SendFile peer path s)) = sent s \<and>
            (\<forall>bytes. fs_nodes s path = Some (RegularFile bytes) \<longrightarrow>
                     fst (SendFile peer path s) = Inr False)) \<and>
         sent (snd (SendFile peer path s)) =
           (if fst (SendFile peer path s) = Inr True
            then sent s @ [(peer, FileTransferRequestMessage peer (id_stream s (ids_drawn s)) (clock s)
                                    (path_filename path) (of_nat (length (regular_bytes s path))))]
            else sent s) \<and>
         (fst (SendFile peer path s) = Inr True \<longrightarrow>
            (\<exists>e. outgoing_transfers (snd (SendFile peer path s)) (peer, path) = Some e \<and>
                 status e = PENDING)) \<and>
         ((\<exists>e. fst (SendFile peer path s) = Inl e) \<longleftrightarrow>
            fs_nodes s path = Some NonRegular \<or> fs_nodes s path = Some Unreadable) \<and>
         (fs_nodes s path = Some NonRegular \<or> fs_nodes s path = Some Unreadable \<longrightarrow>
            snd (SendFile peer path s) = s)"
  using SendFile_not_found [of s path peer] SendFile_no_session [of s peer path]
    SendFile_sent [of peer path s] SendFile_entry [OF reachable_all_pending [OF assms], of peer path]
    SendFile_throws [where peer = peer and path = path and s = s]
  by blast

text \<open>
  The file that exists is requested and its entry is pending; the path that does not
  exist is refused; the directory makes \<^verbatim>\<open>file_size\<close> throw.
\<close>

theorem SendFile_contract_witness:
  "reachable (init_manager example_env) \<and>
   fst (SendFile peer_A ''/home/u/report.bin'' (init_manager example_env)) = Inr True \<and>
   sent (snd (SendFile peer_A ''/home/u/report.bin'' (init_manager example_env)))
     = [(peer_A, FileTransferRequestMessage peer_A (replicate 16 0) 1700000000 ''report.bin'' 51200)] \<and>
   map_option status
     (outgoing_transfers (snd (SendFile peer_A ''/home/u/report.bin'' (init_manager example_env)))
        (peer_A, ''/home/u/report.bin'')) = Some PENDING \<and>
   SendFile peer_A ''/home/u/none.bin'' (init_manager example_env) = (Inr False, init_manager example_env) \<and>
   SendFile peer_A ''/home/u'' (init_manager example_env)
     = (Inl (filesystem_error ''file_size''), init_manager example_env)"
proof -
  have r: "reachable (init_manager example_env)" by (rule reachable.r_init)
  have f: "fst (SendFile peer_A ''/home/u/report.bin'' (init_manager example_env)) = Inr True"
    by (simp add: SendFile_def send_new_def SendMessage_def init_manager_def example_env_def Let_def)
  have n: "fs_nodes (init_manager example_env) ''/home/u/none.bin'' = None"
    by (simp add: init_manager_def example_env_def)
  have d: "SendFile peer_A ''/home/u'' (init_manager example_env)
     = (Inl (filesystem_error ''file_size''), init_manager example_env)"
    by (simp add: SendFile_def init_manager_def example_env_def)
  have p: "path_filename ''/home/u/report.bin'' = ''report.bin''"
    by (simp add: path_filename_def)
  have v: "id_stream (init_manager example_env) (ids_drawn (init_manager example_env)) = replicate 16 0"
    "clock (init_manager example_env) = 1700000000" "sent (init_manager example_env) = []"
    "regular_bytes (init_manager example_env) ''/home/u/report.bin'' = replicate 51200 0x5A"
    by (simp_all add: init_manager_def example_env_def regular_bytes_def)
  show ?thesis
    using r f n d SendFile_contract [OF r, of "''/home/u/report.bin''" peer_A]
      SendFile_contract [OF r, of "''/home/u/none.bin''" peer_A]
    by (auto simp: p v)
qed

section \<open>The chunks of a 50 KiB file\<close>

lemma chunks_sent_append [simp]: "chunks_sent (xs @ ys) = chunks_sent xs @ chunks_sent ys"
  by (simp add: chunks_sent_def map_filter_def)

lemma chunks_sent_Nil [simp]: "chunks_sent [] = []"
  by (simp add: chunks_sent_def map_filter_def)

lemma chunks_sent_Cons_chunk [simp]:
  "chunks_sent ((p, FileChunkMessage a i t f k d) # rest) = (k, length d) # chunks_sent rest"
  by (simp add: chunks_sent_def map_filter_def)

lemma chunks_sent_Cons_request [simp]:
  "chunks_sent ((p, FileTransferRequestMessage a i t f n) # rest) = chunks_sent rest"
  by (simp add: chunks_sent_def map_filter_def)











section \<open>The chat history\<close>

text \<open>
  Claim C10. \<^verbatim>\<open>GetChatHistory(peer, max)\<close> returns the empty list for a peer without
  stored history. For a peer with \<open>n\<close> stored entries it returns \<open>min max n\<close> of them, and
  they are the last ones stored, in their stored order, which is oldest first: an entry
  pushed afterwards is the last of the next answer.
\<close>

theorem GetChatHistory_recent:
  "(chat_history peer = None \<longrightarrow> GetChatHistory chat_history peer max_messages = []) \<and>
   (\<forall>history. chat_history peer = Some history \<longrightarrow>
      length (GetChatHistory chat_history peer max_messages) = min max_messages (length history) \<and>
      GetChatHistory chat_history peer max_messages
        = drop (length history - min max_messages (length history)) history \<and>
      suffix (GetChatHistory chat_history peer max_messages) history) \<and>
   GetChatHistory (push_history chat_history peer info) peer (Suc max_messages)
     = GetChatHistory chat_history peer max_messages @ [info]"
  by (auto simp: GetChatHistory_def push_history_def min_def suffix_drop Suc_diff_le split: option.splits)

text \<open>Three entries stored, two asked for; and a peer never heard of.\<close>

theorem GetChatHistory_recent_witness:
  "GetChatHistory example_history peer_A 2 = [chat_entry ''b'' 2, chat_entry ''c'' 3] \<and>
   GetChatHistory example_history (replicate 32 0xBB) 2 = []"
  using GetChatHistory_recent [of example_history peer_A 2]
    GetChatHistory_recent [of example_history "replicate 32 0xBB" 2]
  by (simp add: example_history_def push_history_def peer_A_def)

section \<open>Signatures and the secret box\<close>

text \<open>
  Claim C9. \<^verbatim>\<open>Verify\<close> returns a boolean for every message, signature and public key and
  throws in no case; it returns false when the signature is not 64 bytes long, and false
  when libsodium's verification does not return 0.
\<close>

theorem Verify_total:
  "(\<exists>b. Verify lib message signature public_key = Inr b) \<and>
   (length signature \<noteq> 64 \<longrightarrow> Verify lib message signature public_key = Inr False) \<and>
   (crypto_sign_verify_detached lib signature message public_key \<noteq> 0 \<longrightarrow>
      Verify lib message signature public_key = Inr False)"
  by (auto simp: Verify_def crypto_sign_BYTES_def)

text \<open>A signature of 63 bytes, one of 64 bytes that does not verify, and one that does.\<close>

theorem Verify_total_witness:
  "Verify toy_sodium [1, 2, 3] (replicate 63 0) [7] = Inr False \<and>
   Verify toy_sodium [1, 2, 3] (replicate 64 0) [7] = Inr False \<and>
   Verify toy_sodium [1, 2, 3] (replicate 64 13) [7] = Inr True"
  using Verify_total [of toy_sodium "[1, 2, 3]" "replicate 63 0" "[7]"]
    Verify_total [of toy_sodium "[1, 2, 3]" "replicate 64 0" "[7]"]
  by (simp add: Verify_def toy_sodium_def crypto_sign_BYTES_def)

lemma copy_to_whole: "length src = length buffer \<Longrightarrow> copy_to buffer 0 src = src"
  by (simp add: copy_to_def)

lemma toy_contract: "secretbox_contract toy_sodium"
  by (simp add: secretbox_contract_def toy_sodium_def toy_tag_def)

text \<open>
  Claim C4, for a libsodium that keeps its documented contract. For every plaintext, key
  of 32 bytes and nonce of 24 bytes, \<^verbatim>\<open>Encrypt\<close> returns a ciphertext 16 bytes longer than
  the plaintext, and \<^verbatim>\<open>Decrypt\<close> of that ciphertext with the same key and nonce returns
  the plaintext.
\<close>

theorem Encrypt_Decrypt:
  assumes "secretbox_contract lib" "length key = 32" "length nonce = 24"
  shows "\<exists>c. Encrypt lib p key nonce = Inr c \<and> length c = length p + 16 \<and>
              Decrypt lib c key nonce = Inr p"
proof -
  obtain rc c where e: "crypto_secretbox_easy lib p nonce key = (rc, c)"
    by (cases "crypto_secretbox_easy lib p nonce key")
  from assms e have rc: "rc = 0" and len: "length c = length p + 16"
    and op: "crypto_secretbox_open_easy lib c nonce key = (0, p)"
    unfolding secretbox_contract_def by (metis fst_conv snd_conv)+
  have enc: "Encrypt lib p key nonce = Inr c"
    using e rc len by (simp add: Encrypt_def crypto_secretbox_MACBYTES_def copy_to_whole)
  have dec: "Decrypt lib c key nonce = Inr p"
    using op len by (simp add: Decrypt_def crypto_secretbox_MACBYTES_def copy_to_whole)
  show ?thesis using enc len dec by blast
qed

text \<open>Two bytes sealed and opened with the stand-in.\<close>

theorem Encrypt_Decrypt_witness:
  "secretbox_contract toy_sodium \<and>
   length (replicate 32 (1::byte)) = 32 \<and> length (replicate 24 (2::byte)) = 24 \<and>
   Encrypt toy_sodium [72, 105] (replicate 32 1) (replicate 24 2) = Inr (replicate 16 1 @ [72, 105]) \<and>
   Decrypt toy_sodium (replicate 16 1 @ [72, 105]) (replicate 32 1) (replicate 24 2) = Inr [72, 105]"
proof -
  have c: "secretbox_contract toy_sodium" by (rule toy_contract)
  have e: "Encrypt toy_sodium [72, 105] (replicate 32 1) (replicate 24 2) = Inr (replicate 16 1 @ [72, 105])"
    by (simp add: Encrypt_def toy_sodium_def toy_tag_def crypto_secretbox_MACBYTES_def
        copy_to_def sum_list_replicate)
  show ?thesis
    using c e Encrypt_Decrypt [OF c, of "replicate 32 1" "replicate 24 2" "[72, 105]"]
    by simp
qed

section \<open>The own-announce guard of the discovery listener\<close>

lemma stoi_8080: "stoi ''8080'' = Some 8080"
  by (simp add: stoi_def is_space_def is_digit_def digit_value_def)

lemma stoi_9090: "stoi ''9090'' = Some 9090"
  by (simp add: stoi_def is_space_def is_digit_def digit_value_def)

lemma parse_8080: "parse_announce ''LINKNET_DISCOVERY:8080'' = Inr (''8080'', 8080)"
  by (simp add: parse_announce_def DISCOVERY_PREFIX_def find_colon_def stoi_8080)

lemma parse_9090: "parse_announce ''LINKNET_DISCOVERY:9090'' = Inr (''9090'', 9090)"
  by (simp add: parse_announce_def DISCOVERY_PREFIX_def find_colon_def stoi_9090)

text \<open>
  Claim C5, as the code has it. The listen loop ignores a well-formed announce exactly
  when the announced port equals the local port, whatever the source address of the
  datagram; the state is then unchanged. An announce of another port is recorded under the
  key made of the source address and the port text, with the current time, and reported
  through the discovered callback when the key is new and a callback is registered.
\<close>

theorem listen_skips_own_port:
  assumes "parse_announce (takeWhile (\<lambda>c. c \<noteq> CHR 0x00) (take 255 payload)) = Inr (port_str, port)"
  shows "(fst (listen_datagram sender_ip payload d) = SkippedOwn \<longleftrightarrow> port = local_port d) \<and>
         (port = local_port d \<longrightarrow> snd (listen_datagram sender_ip payload d) = d) \<and>
         (port \<noteq> local_port d \<longrightarrow>
            fst (listen_datagram sender_ip payload d)
              = Recorded (discovered_peers d (sender_ip @ '':'' @ port_str) = None) \<and>
            discovered_peers (snd (listen_datagram sender_ip payload d))
              = (discovered_peers d)(sender_ip @ '':'' @ port_str \<mapsto> steady_now d) \<and>
            discovered_log (snd (listen_datagram sender_ip payload d))
              = discovered_log d @
                (if discovered_peers d (sender_ip @ '':'' @ port_str) = None \<and> discovered_callback d
                 then [(sender_ip, port)] else []))"
  using assms by (simp add: listen_datagram_def Let_def)

text \<open>An announce of port 9090 heard by the node listening on 8080.\<close>

theorem listen_skips_own_port_witness:
  "parse_announce (takeWhile (\<lambda>c. c \<noteq> CHR 0x00) (take 255 ''LINKNET_DISCOVERY:9090'')) = Inr (''9090'', 9090) \<and>
   fst (listen_datagram ''192.168.1.20'' ''LINKNET_DISCOVERY:9090'' example_discovery) = Recorded True \<and>
   discovered_peers (snd (listen_datagram ''192.168.1.20'' ''LINKNET_DISCOVERY:9090'' example_discovery))
     ''192.168.1.20:9090'' = Some 100 \<and>
   discovered_log (snd (listen_datagram ''192.168.1.20'' ''LINKNET_DISCOVERY:9090'' example_discovery))
     = [(''192.168.1.20'', 9090)]"
  using listen_skips_own_port [of "''LINKNET_DISCOVERY:9090''" "''9090''" 9090 "''192.168.1.20''"
      example_discovery]
  by (simp add: parse_9090 example_discovery_def)

text \<open>
  Claim C5 as stated fails: an announce of port 8080 from 192.168.1.20, which is not the
  loopback address, heard by the node listening on 8080, is skipped; nothing is recorded
  and the callback is not called.
\<close>

theorem listen_skips_own_port_counterexample:
  "listen_datagram ''192.168.1.20'' ''LINKNET_DISCOVERY:8080'' example_discovery
     = (SkippedOwn, example_discovery) \<and>
   discovered_peers example_discovery ''192.168.1.20:8080'' = None \<and>
   discovered_log example_discovery = [] \<and>
   ''192.168.1.20'' \<noteq> ''127.0.0.1''"
  by (simp add: listen_datagram_def parse_8080 example_discovery_def)

end
